theory Spec2Isabelle
  imports Main "HOL-Library.Word" "HOL-Library.Sublist" "HOL-Library.List_Lexorder"
begin

unbundle bit_operations_syntax

section \<open>JavaScript strings and their UTF-8 encoding\<close>

text \<open>
  The continuity service (\<^verbatim>\<open>src/main/lib/continuity/index.ts\<close>) works on JavaScript
  strings: sequences of 16-bit code units. \<^verbatim>\<open>length\<close> counts code units and
  \<^verbatim>\<open>slice(0, k)\<close> keeps the first \<open>k\<close> code units (\<open>take k\<close>).
  \<^verbatim>\<open>Buffer.byteLength(s, "utf8")\<close> is the length of the UTF-8 encoding, in which a
  surrogate pair is one four-byte code point and an unpaired surrogate is replaced by
  U+FFFD (three bytes).
\<close>

type_synonym jsstring = "16 word list"

definition js :: "string \<Rightarrow> jsstring" where
  "js s = map (\<lambda>c. of_nat (of_char c)) s"

definition isHigh :: "16 word \<Rightarrow> bool" where
  "isHigh c = (0xD800 \<le> c \<and> c \<le> 0xDBFF)"

definition isLow :: "16 word \<Rightarrow> bool" where
  "isLow c = (0xDC00 \<le> c \<and> c \<le> 0xDFFF)"

definition replacement :: "8 word list" where
  "replacement = [0xEF, 0xBF, 0xBD]"

definition enc1 :: "nat \<Rightarrow> 8 word list" where
  "enc1 u = [of_nat u]"

definition enc2 :: "nat \<Rightarrow> 8 word list" where
  "enc2 u = [of_nat (0xC0 + u div 64), of_nat (0x80 + u mod 64)]"

definition enc3 :: "nat \<Rightarrow> 8 word list" where
  "enc3 u = [of_nat (0xE0 + u div 4096), of_nat (0x80 + (u div 64) mod 64),
             of_nat (0x80 + u mod 64)]"

definition enc4 :: "nat \<Rightarrow> 8 word list" where
  "enc4 u = [of_nat (0xF0 + u div 262144), of_nat (0x80 + (u div 4096) mod 64),
             of_nat (0x80 + (u div 64) mod 64), of_nat (0x80 + u mod 64)]"

definition pairCodePoint :: "16 word \<Rightarrow> 16 word \<Rightarrow> nat" where
  "pairCodePoint c d = 0x10000 + (unat c - 0xD800) * 1024 + (unat d - 0xDC00)"

definition encUnit :: "16 word \<Rightarrow> 8 word list" where
  "encUnit c =
     (if c < 0x80 then enc1 (unat c)
      else if c < 0x800 then enc2 (unat c)
      else if isHigh c \<or> isLow c then replacement
      else enc3 (unat c))"

fun utf8 :: "jsstring \<Rightarrow> 8 word list" where
  "utf8 [] = []"
| "utf8 [c] = encUnit c"
| "utf8 (c # d # ds) =
     (if isHigh c \<and> isLow d then enc4 (pairCodePoint c d) @ utf8 ds
      else encUnit c @ utf8 (d # ds))"

definition byteLength :: "jsstring \<Rightarrow> int" where
  "byteLength s = int (length (utf8 s))"

text \<open>
  A string is well-formed UTF-16 when every surrogate is half of a pair; this is what
  "no partial code point" and "no unpaired surrogate half" mean for a JavaScript string.
\<close>

fun wellFormed :: "jsstring \<Rightarrow> bool" where
  "wellFormed [] = True"
| "wellFormed [c] = (\<not> isHigh c \<and> \<not> isLow c)"
| "wellFormed (c # d # ds) =
     (if isHigh c then isLow d \<and> wellFormed ds
      else \<not> isLow c \<and> wellFormed (d # ds))"

definition dropTrailingHigh :: "jsstring \<Rightarrow> jsstring" where
  "dropTrailingHigh r = (if r \<noteq> [] \<and> isHigh (last r) then butlast r else r)"

section \<open>clampByBytes\<close>

text \<open>
  \<^verbatim>\<open>
  function clampByBytes(value: string, maxBytes: number): string {
    const byteLength = Buffer.byteLength(value, "utf8")
    if (byteLength <= maxBytes) return value
    let current = value
    while (Buffer.byteLength(current, "utf8") > maxBytes && current.length > 0) {
      current = current.slice(0, Math.floor(current.length * 0.85))
    }
    return current
  }
  \<close>
  \<^verbatim>\<open>Math.floor(n * 0.85)\<close> is computed in double precision. The double nearest to 0.85
  lies below it by less than \<open>2.3e-17\<close>, and for every string length \<open>n\<close> a JavaScript
  engine allows (below \<open>2^30\<close>) the rounded product has the same floor as the exact
  \<open>17 * n / 20\<close>, so the new length is \<open>17 * n div 20\<close>.
\<close>

definition floor85 :: "nat \<Rightarrow> nat" where
  "floor85 n = (17 * n) div 20"

definition shrink :: "jsstring \<Rightarrow> jsstring" where
  "shrink current = take (floor85 (length current)) current"

lemma floor85_less: "1 \<le> n \<Longrightarrow> floor85 n < n"
  by (simp add: floor85_def)

lemma length_shrink: "current \<noteq> [] \<Longrightarrow> length (shrink current) < length current"
  using floor85_less [of "length current"]
  by (cases current) (simp_all add: shrink_def)

function clampLoop :: "jsstring \<Rightarrow> int \<Rightarrow> jsstring" where
  "clampLoop current maxBytes =
     (if byteLength current > maxBytes \<and> length current > 0
      then clampLoop (shrink current) maxBytes
      else current)"
  by pat_completeness auto
termination
  by (relation "measure (\<lambda>(current, maxBytes). length current)")
     (auto simp: length_shrink)

declare clampLoop.simps [simp del]

definition clampByBytes :: "jsstring \<Rightarrow> int \<Rightarrow> jsstring" where
  "clampByBytes value maxBytes =
     (if byteLength value \<le> maxBytes then value else clampLoop value maxBytes)"

section \<open>sha: SHA-256, hexadecimal\<close>

text \<open>
  \<^verbatim>\<open>
  function sha(input: string): string {
    return createHash("sha256").update(input).digest("hex")
  }
  \<close>
  The digest is the SHA-256 of the UTF-8 encoding of the string, written as 64
  lower-case hexadecimal digits. The round constants are given in decimal.
\<close>

definition K256 :: "32 word list" where
  "K256 =
    [1116352408, 1899447441, 3049323471, 3921009573, 961987163, 1508970993,
     2453635748, 2870763221, 3624381080, 310598401, 607225278, 1426881987,
     1925078388, 2162078206, 2614888103, 3248222580, 3835390401, 4022224774,
     264347078, 604807628, 770255983, 1249150122, 1555081692, 1996064986,
     2554220882, 2821834349, 2952996808, 3210313671, 3336571891, 3584528711,
     113926993, 338241895, 666307205, 773529912, 1294757372, 1396182291,
     1695183700, 1986661051, 2177026350, 2456956037, 2730485921, 2820302411,
     3259730800, 3345764771, 3516065817, 3600352804, 4094571909, 275423344,
     430227734, 506948616, 659060556, 883997877, 958139571, 1322822218,
     1537002063, 1747873779, 1955562222, 2024104815, 2227730452, 2361852424,
     2428436474, 2756734187, 3204031479, 3329325298]"

definition H256 :: "32 word list" where
  "H256 =
    [1779033703, 3144134277, 1013904242, 2773480762,
     1359893119, 2600822924, 528734635, 1541459225]"

definition rotr :: "nat \<Rightarrow> 32 word \<Rightarrow> 32 word" where
  "rotr n x = word_rotr n x"

definition sha_ch :: "32 word \<Rightarrow> 32 word \<Rightarrow> 32 word \<Rightarrow> 32 word" where
  "sha_ch x y z = (x AND y) XOR (NOT x AND z)"

definition sha_maj :: "32 word \<Rightarrow> 32 word \<Rightarrow> 32 word \<Rightarrow> 32 word" where
  "sha_maj x y z = (x AND y) XOR (x AND z) XOR (y AND z)"

definition bigSigma0 :: "32 word \<Rightarrow> 32 word" where
  "bigSigma0 x = rotr 2 x XOR rotr 13 x XOR rotr 22 x"

definition bigSigma1 :: "32 word \<Rightarrow> 32 word" where
  "bigSigma1 x = rotr 6 x XOR rotr 11 x XOR rotr 25 x"

definition smallSigma0 :: "32 word \<Rightarrow> 32 word" where
  "smallSigma0 x = rotr 7 x XOR rotr 18 x XOR drop_bit 3 x"

definition smallSigma1 :: "32 word \<Rightarrow> 32 word" where
  "smallSigma1 x = rotr 17 x XOR rotr 19 x XOR drop_bit 10 x"

definition bigEndian64 :: "nat \<Rightarrow> 8 word list" where
  "bigEndian64 n = map (\<lambda>i. of_nat (n div 256 ^ (7 - i) mod 256)) [0..<8]"

definition sha_pad :: "8 word list \<Rightarrow> 8 word list" where
  "sha_pad m =
     m @ [0x80] @ replicate ((119 - length m mod 64) mod 64) 0 @ bigEndian64 (8 * length m)"

fun chunks :: "nat \<Rightarrow> nat \<Rightarrow> 'a list \<Rightarrow> 'a list list" where
  "chunks k 0 bs = []"
| "chunks k (Suc n) bs = take k bs # chunks k n (drop k bs)"

definition word32 :: "8 word list \<Rightarrow> 32 word" where
  "word32 bs = foldl (\<lambda>acc b. push_bit 8 acc OR ucast b) 0 bs"

definition bytes32 :: "32 word \<Rightarrow> 8 word list" where
  "bytes32 w = [ucast (drop_bit 24 w), ucast (drop_bit 16 w), ucast (drop_bit 8 w), ucast w]"

fun sha_extend :: "nat \<Rightarrow> 32 word list \<Rightarrow> 32 word list" where
  "sha_extend 0 w = w"
| "sha_extend (Suc n) w =
     (let t = length w
      in sha_extend n
           (w @ [smallSigma1 (w ! (t - 2)) + w ! (t - 7) + smallSigma0 (w ! (t - 15)) + w ! (t - 16)]))"

definition sha_schedule :: "8 word list \<Rightarrow> 32 word list" where
  "sha_schedule block = sha_extend 48 (map word32 (chunks 4 16 block))"

fun sha_round :: "32 word \<times> 32 word \<Rightarrow> 32 word list \<Rightarrow> 32 word list" where
  "sha_round (k, w) [a, b, c, d, e, f, g, h] =
     (let t1 = h + bigSigma1 e + sha_ch e f g + k + w;
          t2 = bigSigma0 a + sha_maj a b c
      in [t1 + t2, a, b, c, d + t1, e, f, g])"
| "sha_round (k, w) v = v"

definition sha_compress :: "8 word list \<Rightarrow> 32 word list \<Rightarrow> 32 word list" where
  "sha_compress block hs = map2 (+) hs (fold sha_round (zip K256 (sha_schedule block)) hs)"

definition sha256 :: "8 word list \<Rightarrow> 8 word list" where
  "sha256 m =
     (let p = sha_pad m
      in concat (map bytes32 (fold sha_compress (chunks 64 (length p div 64) p) H256)))"

definition hexDigits :: jsstring where
  "hexDigits = js ''0123456789abcdef''"

definition hexByte :: "8 word \<Rightarrow> jsstring" where
  "hexByte b = [hexDigits ! (unat b div 16), hexDigits ! (unat b mod 16)]"

definition sha :: "jsstring \<Rightarrow> jsstring" where
  "sha input = concat (map hexByte (sha256 (utf8 input)))"

section \<open>String operations of the runtime\<close>

text \<open>
  White space is what \<^verbatim>\<open>String.prototype.trim\<close> strips and what \<^verbatim>\<open>\s\<close> matches.
  \<^verbatim>\<open>toLowerCase\<close> is modelled on the letters A to Z; the case mapping of other scripts
  comes from the Unicode tables of the runtime and is left out (such code units are kept).
\<close>

definition isWhiteSpace :: "16 word \<Rightarrow> bool" where
  "isWhiteSpace c =
     (c \<in> set [0x9, 0xA, 0xB, 0xC, 0xD, 0x20, 0xA0, 0x1680, 0x2028, 0x2029, 0x202F,
                0x205F, 0x3000, 0xFEFF]
      \<or> (0x2000 \<le> c \<and> c \<le> 0x200A))"

definition trim :: "jsstring \<Rightarrow> jsstring" where
  "trim s = rev (dropWhile isWhiteSpace (rev (dropWhile isWhiteSpace s)))"

definition toLowerUnit :: "16 word \<Rightarrow> 16 word" where
  "toLowerUnit c = (if 0x41 \<le> c \<and> c \<le> 0x5A then c + 0x20 else c)"

definition toLowerCase :: "jsstring \<Rightarrow> jsstring" where
  "toLowerCase s = map toLowerUnit s"

fun joinWith :: "jsstring \<Rightarrow> jsstring list \<Rightarrow> jsstring" where
  "joinWith sep [] = []"
| "joinWith sep [x] = x"
| "joinWith sep (x # y # ys) = x @ sep @ joinWith sep (y # ys)"

fun splitOn :: "16 word \<Rightarrow> jsstring \<Rightarrow> jsstring list" where
  "splitOn sep [] = [[]]"
| "splitOn sep (c # cs) =
     (if c = sep then [] # splitOn sep cs
      else (case splitOn sep cs of t # ts \<Rightarrow> (c # t) # ts | [] \<Rightarrow> [[c]]))"

definition newline :: "16 word" where
  "newline = 0xA"

definition splitLines :: "jsstring \<Rightarrow> jsstring list" where
  "splitLines s = splitOn newline s"

text \<open>\<^verbatim>\<open>s.split(/[...]+/g)\<close>: the pieces between maximal runs of separator code units.\<close>

function splitRuns :: "(16 word \<Rightarrow> bool) \<Rightarrow> jsstring \<Rightarrow> jsstring list" where
  "splitRuns sep [] = [[]]"
| "splitRuns sep (c # cs) =
     (if sep c then [] # splitRuns sep (dropWhile sep cs)
      else (case splitRuns sep cs of t # ts \<Rightarrow> (c # t) # ts | [] \<Rightarrow> [[c]]))"
  by pat_completeness auto
termination
  by (relation "measure (\<lambda>(sep, s). length s)")
     (auto simp: less_Suc_eq_le length_dropWhile_le)

text \<open>\<^verbatim>\<open>s.replace(/\s+/g, " ")\<close>\<close>

function collapseWhiteSpace :: "jsstring \<Rightarrow> jsstring" where
  "collapseWhiteSpace [] = []"
| "collapseWhiteSpace (c # cs) =
     (if isWhiteSpace c then 0x20 # collapseWhiteSpace (dropWhile isWhiteSpace cs)
      else c # collapseWhiteSpace cs)"
  by pat_completeness auto
termination
  by (relation "measure length") (auto simp: less_Suc_eq_le length_dropWhile_le)

text \<open>\<^verbatim>\<open>s.startsWith(p)\<close> and \<^verbatim>\<open>s.includes(sub)\<close> (\<open>includes\<close> is a keyword here).\<close>

definition startsWith :: "jsstring \<Rightarrow> jsstring \<Rightarrow> bool" where
  "startsWith s p = prefix p s"

fun includesStr :: "jsstring \<Rightarrow> jsstring \<Rightarrow> bool" where
  "includesStr [] sub = (sub = [])"
| "includesStr (c # cs) sub = (prefix sub (c # cs) \<or> includesStr cs sub)"

text \<open>\<^verbatim>\<open>[...new Set(xs)]\<close>: the distinct elements in the order of their first occurrence.\<close>

definition uniqueInOrder :: "'a list \<Rightarrow> 'a list" where
  "uniqueInOrder xs = fold (\<lambda>x acc. if x \<in> set acc then acc else acc @ [x]) xs []"

text \<open>\<^verbatim>\<open>xs.slice(-n)\<close>\<close>

definition lastN :: "nat \<Rightarrow> 'a list \<Rightarrow> 'a list" where
  "lastN n xs = drop (length xs - n) xs"

text \<open>\<^verbatim>\<open>String(n)\<close> for an integer and \<^verbatim>\<open>String(b)\<close> for a boolean.\<close>

definition digitChar :: "nat \<Rightarrow> 16 word" where
  "digitChar n = of_nat (48 + n)"

function natToString :: "nat \<Rightarrow> jsstring" where
  "natToString n =
     (if n < 10 then [digitChar n] else natToString (n div 10) @ [digitChar (n mod 10)])"
  by pat_completeness auto
termination
  by (relation "measure id") auto

declare natToString.simps [simp del]

definition numberToString :: "int \<Rightarrow> jsstring" where
  "numberToString i = (if i < 0 then js ''-'' @ natToString (nat (- i)) else natToString (nat i))"

definition boolToString :: "bool \<Rightarrow> jsstring" where
  "boolToString b = (if b then js ''true'' else js ''false'')"

text \<open>\<^verbatim>\<open>a || b\<close> on strings: the empty string is falsy.\<close>

definition orElse :: "jsstring \<Rightarrow> jsstring \<Rightarrow> jsstring" where
  "orElse a b = (if a = [] then b else a)"

text \<open>
  \<^verbatim>\<open>prompt.split("\n").find((line) => line.trim().length > 0)?.trim() || prompt.trim()\<close>
\<close>

definition firstNonBlankLine :: "jsstring \<Rightarrow> jsstring option" where
  "firstNonBlankLine s = (case filter (\<lambda>line. length (trim line) > 0) (splitLines s) of
      [] \<Rightarrow> None | line # rest \<Rightarrow> Some line)"

definition objectiveOf :: "jsstring \<Rightarrow> jsstring" where
  "objectiveOf p = (case firstNonBlankLine p of
      Some line \<Rightarrow> orElse (trim line) (trim p) | None \<Rightarrow> trim p)"

definition normalizePrompt :: "jsstring \<Rightarrow> jsstring" where
  "normalizePrompt p = collapseWhiteSpace (toLowerCase (trim p))"

section \<open>Keyword extraction\<close>

definition STOPWORDS :: "jsstring list" where
  "STOPWORDS = map js
     [''the'', ''this'', ''that'', ''with'', ''from'', ''into'', ''about'', ''would'',
      ''could'', ''should'', ''there'', ''their'', ''your'', ''need'', ''have'', ''please'',
      ''just'', ''when'', ''what'', ''where'', ''which'', ''while'', ''after'', ''before'',
      ''code'', ''repo'', ''project'']"

text \<open>The class \<^verbatim>\<open>[a-z0-9_./-]\<close>; every other code unit separates keywords.\<close>

definition isKeywordUnit :: "16 word \<Rightarrow> bool" where
  "isKeywordUnit c =
     ((0x61 \<le> c \<and> c \<le> 0x7A) \<or> (0x30 \<le> c \<and> c \<le> 0x39)
      \<or> c = 0x5F \<or> c = 0x2E \<or> c = 0x2F \<or> c = 0x2D)"

definition extractKeywords :: "jsstring \<Rightarrow> jsstring list" where
  "extractKeywords p =
     (let parts = filter (\<lambda>part. length part \<ge> 4 \<and> part \<notin> set STOPWORDS)
                    (map trim (splitRuns (\<lambda>c. \<not> isKeywordUnit c) (toLowerCase p)))
      in take 6 (uniqueInOrder parts))"

section \<open>Configuration\<close>

text \<open>
  The configuration module reads the process environment, a map from variable names
  to strings.
  \<^verbatim>\<open>
  export function getContinuityGovernorCapabilities(): ContinuityGovernorCapabilities {
    return {
      snapshotEnabled: process.env.ONECODE_CONTINUITY_ENABLE_SNAPSHOT !== "0",
      // Staged rollout: keep disabled by default until explicitly enabled.
      rehydrateEnabled: process.env.ONECODE_CONTINUITY_ENABLE_REHYDRATE === "1",
    }
  }
  \<close>
\<close>

datatype ContinuityMode = ModeOff | ModePassive | ModeActive

datatype ContinuityTokenMode = TokenLow | TokenNormal | TokenDebug

datatype ContinuityArtifactPolicy = AutoWriteManualCommit | AutoWriteMemoryBranch

datatype ProviderKind = Claude | Codex

datatype ChatMode = Plan | Agent

datatype GovernorAction = Ok | Snapshot | Rehydrate

datatype ArtifactType = Devlog | Adr | RejectedApproach

record ContinuityGovernorCapabilities =
  snapshotEnabled :: bool
  rehydrateEnabled :: bool

record ContinuityBudgetProfile =
  maxPackBytes :: int
  maxContextFiles :: nat
  maxContextSummaryBytes :: int
  maxFileReadBytes :: int

type_synonym processEnv = "string \<Rightarrow> jsstring option"

definition getContinuityMode :: "processEnv \<Rightarrow> ContinuityMode" where
  "getContinuityMode penv =
     (let rawMode = penv ''ONECODE_CONTINUITY_MODE''
      in if rawMode = Some (js ''active'') then ModeActive
         else if rawMode = Some (js ''passive'') then ModePassive
         else if rawMode = Some (js ''off'') then ModeOff
         else if penv ''ONECODE_CONTINUITY_ENABLED'' = Some (js ''1'') then ModeActive
         else ModeOff)"

definition getDefaultContinuityArtifactPolicy :: "processEnv \<Rightarrow> ContinuityArtifactPolicy" where
  "getDefaultContinuityArtifactPolicy penv =
     (if penv ''ONECODE_CONTINUITY_ARTIFACT_POLICY'' = Some (js ''auto-write-memory-branch'')
      then AutoWriteMemoryBranch else AutoWriteManualCommit)"

definition getDefaultContinuityMemoryBranch :: "processEnv \<Rightarrow> jsstring" where
  "getDefaultContinuityMemoryBranch penv =
     (case penv ''ONECODE_CONTINUITY_MEMORY_BRANCH'' of
        Some b \<Rightarrow> orElse b (js ''memory/continuity'')
      | None \<Rightarrow> js ''memory/continuity'')"

definition getContinuityGovernorCapabilities :: "processEnv \<Rightarrow> ContinuityGovernorCapabilities" where
  "getContinuityGovernorCapabilities penv =
     \<lparr> snapshotEnabled = (penv ''ONECODE_CONTINUITY_ENABLE_SNAPSHOT'' \<noteq> Some (js ''0'')),
       rehydrateEnabled = (penv ''ONECODE_CONTINUITY_ENABLE_REHYDRATE'' = Some (js ''1'')) \<rparr>"

definition parseTokenMode :: "jsstring \<Rightarrow> ContinuityTokenMode option" where
  "parseTokenMode raw =
     (if raw = js ''low'' then Some TokenLow
      else if raw = js ''normal'' then Some TokenNormal
      else if raw = js ''debug'' then Some TokenDebug
      else None)"

definition getContinuityTokenMode :: "processEnv \<Rightarrow> ContinuityTokenMode" where
  "getContinuityTokenMode penv =
     (case penv ''ONECODE_TOKEN_MODE'' of
        Some rawMode \<Rightarrow> (case parseTokenMode rawMode of Some m \<Rightarrow> m | None \<Rightarrow> TokenNormal)
      | None \<Rightarrow> TokenNormal)"

fun getContinuityBudgetProfile :: "ContinuityTokenMode \<Rightarrow> ContinuityBudgetProfile" where
  "getContinuityBudgetProfile TokenLow =
     \<lparr> maxPackBytes = 14000, maxContextFiles = 4,
       maxContextSummaryBytes = 9000, maxFileReadBytes = 90000 \<rparr>"
| "getContinuityBudgetProfile TokenDebug =
     \<lparr> maxPackBytes = 42000, maxContextFiles = 12,
       maxContextSummaryBytes = 24000, maxFileReadBytes = 300000 \<rparr>"
| "getContinuityBudgetProfile TokenNormal =
     \<lparr> maxPackBytes = 24000, maxContextFiles = 8,
       maxContextSummaryBytes = 16000, maxFileReadBytes = 180000 \<rparr>"

fun providerText :: "ProviderKind \<Rightarrow> jsstring" where
  "providerText Claude = js ''claude''"
| "providerText Codex = js ''codex''"

fun chatModeText :: "ChatMode \<Rightarrow> jsstring" where
  "chatModeText Plan = js ''plan''"
| "chatModeText Agent = js ''agent''"

fun actionText :: "GovernorAction \<Rightarrow> jsstring" where
  "actionText Ok = js ''ok''"
| "actionText Snapshot = js ''snapshot''"
| "actionText Rehydrate = js ''rehydrate''"

fun policyText :: "ContinuityArtifactPolicy \<Rightarrow> jsstring" where
  "policyText AutoWriteManualCommit = js ''auto-write-manual-commit''"
| "policyText AutoWriteMemoryBranch = js ''auto-write-memory-branch''"

fun tokenModeText :: "ContinuityTokenMode \<Rightarrow> jsstring" where
  "tokenModeText TokenLow = js ''low''"
| "tokenModeText TokenNormal = js ''normal''"
| "tokenModeText TokenDebug = js ''debug''"

fun artifactTypeText :: "ArtifactType \<Rightarrow> jsstring" where
  "artifactTypeText Devlog = js ''devlog''"
| "artifactTypeText Adr = js ''adr''"
| "artifactTypeText RejectedApproach = js ''rejected-approach''"

section \<open>The data model\<close>

text \<open>
  The rows of the SQLite tables (\<^verbatim>\<open>src/main/lib/db/schema/index.ts\<close>) carry the column
  names of the schema, with a prefix for the table where a name occurs twice. Every date
  column is an \<^verbatim>\<open>integer\<close> in the \<^verbatim>\<open>timestamp\<close> mode of the schema: the storage layer
  writes a \<^verbatim>\<open>Date\<close> as its whole seconds, \<^verbatim>\<open>Math.floor(date.getTime() / 1000)\<close>, and
  reads the column back as the \<^verbatim>\<open>Date\<close> of that many seconds. So the date columns of
  the rows below hold seconds, while the clock and every \<^verbatim>\<open>Date\<close> of the service are
  in milliseconds; \<open>toStored\<close> and \<open>fromStored\<close> are the two conversions. A JSON column
  is modelled by the value it parses to: \<^verbatim>\<open>provenance_json\<close> by its
  \<^verbatim>\<open>eventFingerprint\<close> (absent when the text does not parse or has no such string) and
  \<^verbatim>\<open>createdBy\<close>, \<^verbatim>\<open>result_json\<close> by its list of files, \<^verbatim>\<open>messages\<close> by the list of
  messages with their parts.
\<close>

definition toStored :: "int \<Rightarrow> int" where
  "toStored ms = ms div 1000"

definition fromStored :: "int \<Rightarrow> int" where
  "fromStored seconds = seconds * 1000"

record RepoState =
  headCommit :: jsstring
  changedFiles :: "jsstring list"
  changedFilesHash :: jsstring

record CachedSearchResult =
  timestamp :: int
  files :: "jsstring list"

record FileCacheRow =
  fc_repo_root :: jsstring
  fc_file_path :: jsstring
  fc_content_hash :: jsstring
  fc_summary :: jsstring
  fc_updated_at :: int

record SearchCacheRow =
  sc_repo_root :: jsstring
  sc_query :: jsstring
  sc_commit_hash :: jsstring
  sc_scope :: jsstring
  sc_result_files :: "jsstring list option"
  sc_updated_at :: "int option"

record PackCacheRow =
  pc_task_fingerprint :: jsstring
  pc_changed_files_hash :: jsstring
  pc_head_commit :: jsstring
  pc_provider :: jsstring
  pc_mode :: jsstring
  pc_budget_bytes :: int
  pc_pack :: jsstring
  pc_updated_at :: int

record StateRow =
  last_changed_files_hash :: jsstring
  turns_since_snapshot :: int
  total_injected_bytes :: int
  last_snapshot_at :: "int option"
  st_updated_at :: int

record ArtifactRow =
  art_id :: nat
  art_sub_chat_id :: jsstring
  art_type :: ArtifactType
  art_content :: jsstring
  art_status :: jsstring
  art_event_fingerprint :: "jsstring option"
  art_created_by :: "jsstring option"
  art_created_at :: int
  art_updated_at :: int

record SettingsRow =
  artifact_policy :: jsstring
  auto_commit_to_memory_branch :: bool
  token_mode :: jsstring
  memory_branch :: jsstring
  set_updated_at :: int

record MessagePart =
  part_type :: "jsstring option"
  part_text :: "jsstring option"

record Message =
  msg_id :: jsstring
  msg_role :: jsstring
  msg_parts :: "MessagePart list option"
  msg_continuityRehydrate :: bool
  msg_createdAt :: "jsstring option"

record SubChatRow =
  sub_parent_chat_id :: jsstring
  sub_mode :: jsstring
  sub_session_id :: "jsstring option"
  sub_stream_id :: "jsstring option"
  sub_messages :: "Message list option"
  sub_updated_at :: int

record database =
  continuity_file_cache :: "jsstring \<Rightarrow> FileCacheRow option"
  continuity_search_cache :: "jsstring \<Rightarrow> SearchCacheRow option"
  continuity_pack_cache :: "jsstring \<Rightarrow> PackCacheRow option"
  continuity_state :: "jsstring \<Rightarrow> StateRow option"
  continuity_artifact :: "ArtifactRow list"
  continuity_settings :: "SettingsRow option"
  sub_chats :: "jsstring \<Rightarrow> SubChatRow option"
  chats :: "jsstring \<Rightarrow> int option"

datatype TelemetryEvent =
  PackMetrics ProviderKind ChatMode bool int int int
| GovernorActionEvent ProviderKind ChatMode GovernorAction nat
| SafeguardEvent jsstring jsstring jsstring

text \<open>
  The service object with its five in-memory maps, the database, the telemetry sent
  and the version-control commands run so far (each by its argument list).
\<close>

record world =
  searchCache :: "jsstring \<Rightarrow> CachedSearchResult option"
  fileSummaryCache :: "jsstring \<Rightarrow> jsstring option"
  contextPackCache :: "jsstring \<Rightarrow> jsstring option"
  subChatState :: "jsstring \<Rightarrow> jsstring option"
  protocolState :: "jsstring \<Rightarrow> jsstring option"
  db :: database
  telemetry :: "TelemetryEvent list"
  gitCalls :: "jsstring list list"

text \<open>
  What the outside answers during one call: the process environment, whether the
  database handle works (when it does not, every query of the call throws and the
  surrounding \<^verbatim>\<open>catch\<close> takes over; of the errors of a single statement only the
  violation of the foreign key of \<^verbatim>\<open>continuity_artifact\<close> is modelled), the clock (every
  reading of it during the call gives the same millisecond), the output of the version-control
  and file-listing subprocesses (absent when the subprocess fails), the total that
  \<^verbatim>\<open>getDiffStats\<close> computes from \<^verbatim>\<open>git diff --numstat\<close>, the files under the repository
  root, and the identifier and ISO time stamp of a synthetic message.
\<close>

record FileInfo =
  isFile :: bool
  fileSize :: int
  fileContent :: "jsstring option"

record env =
  processEnv :: processEnv
  dbOk :: bool
  now :: int
  gitHead :: "jsstring option"
  gitStatusPaths :: "jsstring list option"
  gitBranch :: "jsstring option"
  gitDiff :: "jsstring option"
  diffTotalLines :: int
  rgFiles :: "jsstring option"
  fileSystem :: "jsstring \<Rightarrow> jsstring \<Rightarrow> FileInfo option"
  randomUUID :: jsstring
  isoNow :: jsstring

section \<open>The governor\<close>

definition SEARCH_TTL_MS :: int where "SEARCH_TTL_MS = 60000"
definition MAX_SUMMARY_LINES :: nat where "MAX_SUMMARY_LINES = 12"
definition DEVLOG_DIFF_THRESHOLD :: int where "DEVLOG_DIFF_THRESHOLD = 120"
definition DEVLOG_FILE_THRESHOLD :: int where "DEVLOG_FILE_THRESHOLD = 6"
definition REHYDRATE_TURN_THRESHOLD :: int where "REHYDRATE_TURN_THRESHOLD = 12"
definition SNAPSHOT_TURN_THRESHOLD :: int where "SNAPSHOT_TURN_THRESHOLD = 7"
definition REHYDRATE_BYTES_THRESHOLD :: int where "REHYDRATE_BYTES_THRESHOLD = 150000"
definition SNAPSHOT_BYTES_THRESHOLD :: int where "SNAPSHOT_BYTES_THRESHOLD = 90000"
definition REHYDRATE_FILES_THRESHOLD :: int where "REHYDRATE_FILES_THRESHOLD = 18"
definition SNAPSHOT_FILES_THRESHOLD :: int where "SNAPSHOT_FILES_THRESHOLD = 10"
definition REHYDRATE_DIFF_THRESHOLD :: int where "REHYDRATE_DIFF_THRESHOLD = 280"
definition SNAPSHOT_DIFF_THRESHOLD :: int where "SNAPSHOT_DIFF_THRESHOLD = 160"
definition REHYDRATE_ELAPSED_MS :: int where "REHYDRATE_ELAPSED_MS = 50 * 60 * 1000"
definition SNAPSHOT_ELAPSED_MS :: int where "SNAPSHOT_ELAPSED_MS = 25 * 60 * 1000"

record Counters =
  turnsSinceSnapshot :: int
  totalInjectedBytes :: int

record GovernorInput = Counters +
  changedFilesCount :: int
  diffLines :: int
  elapsedSinceSnapshotMs :: int

record PersistedState = Counters +
  lastSnapshotAt :: "int option"

record GovernorDecision =
  action :: GovernorAction
  reasons :: "jsstring list"

text \<open>\<^verbatim>\<open>if (c) xs.push(x)\<close>\<close>

definition pushIf :: "bool \<Rightarrow> 'a \<Rightarrow> 'a list \<Rightarrow> 'a list" where
  "pushIf c x xs = (if c then xs @ [x] else xs)"

definition snapshotReasons :: "GovernorInput \<Rightarrow> jsstring list" where
  "snapshotReasons input =
     (let reasons = [];
          reasons = pushIf (turnsSinceSnapshot input \<ge> SNAPSHOT_TURN_THRESHOLD)
                      (js ''turn-pressure'') reasons;
          reasons = pushIf (totalInjectedBytes input \<ge> SNAPSHOT_BYTES_THRESHOLD)
                      (js ''context-pressure'') reasons;
          reasons = pushIf (changedFilesCount input \<ge> SNAPSHOT_FILES_THRESHOLD)
                      (js ''scope-pressure'') reasons;
          reasons = pushIf (diffLines input \<ge> SNAPSHOT_DIFF_THRESHOLD)
                      (js ''diff-pressure'') reasons;
          reasons = pushIf (elapsedSinceSnapshotMs input \<ge> SNAPSHOT_ELAPSED_MS)
                      (js ''time-pressure'') reasons
      in reasons)"

definition severeReasons :: "GovernorInput \<Rightarrow> jsstring list" where
  "severeReasons input =
     (let severe = [];
          severe = pushIf (turnsSinceSnapshot input \<ge> REHYDRATE_TURN_THRESHOLD)
                      (js ''turn-pressure-high'') severe;
          severe = pushIf (totalInjectedBytes input \<ge> REHYDRATE_BYTES_THRESHOLD)
                      (js ''context-pressure-high'') severe;
          severe = pushIf (changedFilesCount input \<ge> REHYDRATE_FILES_THRESHOLD)
                      (js ''scope-pressure-high'') severe;
          severe = pushIf (diffLines input \<ge> REHYDRATE_DIFF_THRESHOLD)
                      (js ''diff-pressure-high'') severe;
          severe = pushIf (elapsedSinceSnapshotMs input \<ge> REHYDRATE_ELAPSED_MS)
                      (js ''time-pressure-high'') severe
      in severe)"

definition decideGovernor :: "GovernorInput \<Rightarrow> GovernorDecision" where
  "decideGovernor input =
     (if length (severeReasons input) \<ge> 2
      then \<lparr> action = Rehydrate, reasons = severeReasons input \<rparr>
      else if length (snapshotReasons input) \<ge> 2
      then \<lparr> action = Snapshot, reasons = snapshotReasons input \<rparr>
      else \<lparr> action = Ok, reasons = [] \<rparr>)"

text \<open>The order \<open>ok\<close>, \<open>snapshot\<close>, \<open>rehydrate\<close> of the actions.\<close>

fun actionRank :: "GovernorAction \<Rightarrow> nat" where
  "actionRank Ok = 0"
| "actionRank Snapshot = 1"
| "actionRank Rehydrate = 2"

text \<open>One of the five signals is larger in \<open>b\<close> than in \<open>a\<close>, the other four are the same.\<close>

definition raisesOneSignal :: "GovernorInput \<Rightarrow> GovernorInput \<Rightarrow> bool" where
  "raisesOneSignal a b =
     ((turnsSinceSnapshot a < turnsSinceSnapshot b
         \<and> totalInjectedBytes a = totalInjectedBytes b
         \<and> changedFilesCount a = changedFilesCount b
         \<and> diffLines a = diffLines b
         \<and> elapsedSinceSnapshotMs a = elapsedSinceSnapshotMs b)
      \<or> (turnsSinceSnapshot a = turnsSinceSnapshot b
         \<and> totalInjectedBytes a < totalInjectedBytes b
         \<and> changedFilesCount a = changedFilesCount b
         \<and> diffLines a = diffLines b
         \<and> elapsedSinceSnapshotMs a = elapsedSinceSnapshotMs b)
      \<or> (turnsSinceSnapshot a = turnsSinceSnapshot b
         \<and> totalInjectedBytes a = totalInjectedBytes b
         \<and> changedFilesCount a < changedFilesCount b
         \<and> diffLines a = diffLines b
         \<and> elapsedSinceSnapshotMs a = elapsedSinceSnapshotMs b)
      \<or> (turnsSinceSnapshot a = turnsSinceSnapshot b
         \<and> totalInjectedBytes a = totalInjectedBytes b
         \<and> changedFilesCount a = changedFilesCount b
         \<and> diffLines a < diffLines b
         \<and> elapsedSinceSnapshotMs a = elapsedSinceSnapshotMs b)
      \<or> (turnsSinceSnapshot a = turnsSinceSnapshot b
         \<and> totalInjectedBytes a = totalInjectedBytes b
         \<and> changedFilesCount a = changedFilesCount b
         \<and> diffLines a = diffLines b
         \<and> elapsedSinceSnapshotMs a < elapsedSinceSnapshotMs b))"

text \<open>
  The capability gate of \<^verbatim>\<open>recordRunOutcome\<close>:
  \<^verbatim>\<open>
  const effectiveGovernorAction: GovernorAction =
    governorDecision.action === "rehydrate" && !capabilities.rehydrateEnabled
      ? capabilities.snapshotEnabled ? "snapshot" : "ok"
      : governorDecision.action === "snapshot" && !capabilities.snapshotEnabled
        ? "ok"
        : governorDecision.action
  \<close>
\<close>

definition effectiveGovernorAction ::
    "ContinuityGovernorCapabilities \<Rightarrow> GovernorDecision \<Rightarrow> GovernorAction" where
  "effectiveGovernorAction capabilities governorDecision =
     (if action governorDecision = Rehydrate \<and> \<not> rehydrateEnabled capabilities
      then (if snapshotEnabled capabilities then Snapshot else Ok)
      else if action governorDecision = Snapshot \<and> \<not> snapshotEnabled capabilities
      then Ok
      else action governorDecision)"

section \<open>Repository probes\<close>

text \<open>
  Each probe records the version-control command it runs and answers from the
  environment; a failing subprocess gives the conservative default of the \<^verbatim>\<open>catch\<close>.
\<close>

definition logGit :: "jsstring list \<Rightarrow> world \<Rightarrow> world" where
  "logGit argv w = w\<lparr>gitCalls := gitCalls w @ [argv]\<rparr>"

definition noGitState :: RepoState where
  "noGitState = \<lparr> headCommit = js ''no-git'', changedFiles = [],
                  changedFilesHash = js ''no-changes'' \<rparr>"

definition readRepoState :: "env \<Rightarrow> RepoState" where
  "readRepoState e =
     (case gitHead e of
        None \<Rightarrow> noGitState
      | Some headOut \<Rightarrow>
         (case gitStatusPaths e of
            None \<Rightarrow> noGitState
          | Some paths \<Rightarrow>
             (let changed = sort (uniqueInOrder paths)
              in \<lparr> headCommit = trim headOut, changedFiles = changed,
                   changedFilesHash = sha (joinWith [newline] changed) \<rparr>)))"

definition getRepoState :: "env \<Rightarrow> jsstring \<Rightarrow> world \<Rightarrow> RepoState \<times> world" where
  "getRepoState e repoRoot w =
     (readRepoState e, logGit [js ''status''] (logGit [js ''rev-parse'', js ''HEAD''] w))"

definition getDiffStats :: "env \<Rightarrow> jsstring \<Rightarrow> world \<Rightarrow> int \<times> world" where
  "getDiffStats e repoRoot w =
     (diffTotalLines e, logGit [js ''-C'', repoRoot, js ''diff'', js ''--numstat''] w)"

definition readDiffSnippet :: "env \<Rightarrow> jsstring" where
  "readDiffSnippet e =
     (case gitDiff e of Some out \<Rightarrow> clampByBytes (trim out) 4000 | None \<Rightarrow> [])"

definition getDiffSnippet :: "env \<Rightarrow> jsstring \<Rightarrow> world \<Rightarrow> jsstring \<times> world" where
  "getDiffSnippet e repoRoot w =
     (readDiffSnippet e,
      logGit [js ''-C'', repoRoot, js ''diff'', js ''--unified=1'', js ''--'', js ''.''] w)"

definition readCurrentBranch :: "env \<Rightarrow> jsstring" where
  "readCurrentBranch e = (case gitBranch e of Some out \<Rightarrow> trim out | None \<Rightarrow> js ''unknown'')"

definition listFiles :: "env \<Rightarrow> jsstring list" where
  "listFiles e =
     (case rgFiles e of
        Some out \<Rightarrow> filter (\<lambda>line. length line > 0) (map trim (splitLines out))
      | None \<Rightarrow> [])"



section \<open>Persisted state and settings\<close>

definition getPersistedState :: "env \<Rightarrow> jsstring \<Rightarrow> world \<Rightarrow> PersistedState" where
  "getPersistedState e sub w =
     (if \<not> dbOk e
      then \<lparr> turnsSinceSnapshot = 0, totalInjectedBytes = 0, lastSnapshotAt = None \<rparr>
      else (case continuity_state (db w) sub of
              None \<Rightarrow> \<lparr> turnsSinceSnapshot = 0, totalInjectedBytes = 0, lastSnapshotAt = None \<rparr>
            | Some row \<Rightarrow> \<lparr> turnsSinceSnapshot = turns_since_snapshot row,
                             totalInjectedBytes = total_injected_bytes row,
                             lastSnapshotAt = map_option fromStored (last_snapshot_at row) \<rparr>))"

text \<open>
  \<^verbatim>\<open>persistGovernorState\<close> sets the in-memory entry and upserts the whole row of the
  sub-chat in one statement.
\<close>

definition persistGovernorState ::
    "env \<Rightarrow> jsstring \<Rightarrow> jsstring \<Rightarrow> PersistedState \<Rightarrow> world \<Rightarrow> world" where
  "persistGovernorState e sub lastChangedFilesHash st w =
     (let w = w\<lparr>subChatState := (subChatState w)(sub \<mapsto> lastChangedFilesHash)\<rparr>
      in if \<not> dbOk e then w
         else w\<lparr>db := (db w)\<lparr>continuity_state := (continuity_state (db w))(sub \<mapsto>
                \<lparr> last_changed_files_hash = lastChangedFilesHash,
                  turns_since_snapshot = turnsSinceSnapshot st,
                  total_injected_bytes = totalInjectedBytes st,
                  last_snapshot_at = map_option toStored (lastSnapshotAt st),
                  st_updated_at = toStored (now e) \<rparr>)\<rparr>\<rparr>)"

record SafeguardSettings =
  artifactPolicy :: ContinuityArtifactPolicy
  autoCommitToMemoryBranch :: bool
  tokenMode :: ContinuityTokenMode
  memoryBranch :: jsstring

definition fallbackSettings :: "env \<Rightarrow> SafeguardSettings" where
  "fallbackSettings e =
     \<lparr> artifactPolicy = getDefaultContinuityArtifactPolicy (processEnv e),
       autoCommitToMemoryBranch = False,
       tokenMode = getContinuityTokenMode (processEnv e),
       memoryBranch = getDefaultContinuityMemoryBranch (processEnv e) \<rparr>"

definition getSafeguardSettings :: "env \<Rightarrow> world \<Rightarrow> SafeguardSettings \<times> world" where
  "getSafeguardSettings e w =
     (let fallback = fallbackSettings e
      in if \<not> dbOk e then (fallback, w)
         else (case continuity_settings (db w) of
                 None \<Rightarrow>
                   (fallback,
                    w\<lparr>db := (db w)\<lparr>continuity_settings := Some
                       \<lparr> artifact_policy = policyText (artifactPolicy fallback),
                         auto_commit_to_memory_branch = False,
                         token_mode = tokenModeText (tokenMode fallback),
                         memory_branch = memoryBranch fallback,
                         set_updated_at = toStored (now e) \<rparr>\<rparr>\<rparr>)
               | Some row \<Rightarrow>
                   (\<lparr> artifactPolicy =
                        (if artifact_policy row = js ''auto-write-memory-branch''
                         then AutoWriteMemoryBranch else AutoWriteManualCommit),
                      autoCommitToMemoryBranch = auto_commit_to_memory_branch row,
                      tokenMode = (case parseTokenMode (token_mode row) of
                                     Some m \<Rightarrow> m | None \<Rightarrow> tokenMode fallback),
                      memoryBranch = orElse (memory_branch row) (memoryBranch fallback) \<rparr>,
                    w)))"

definition getConfiguredTokenMode :: "env \<Rightarrow> world \<Rightarrow> ContinuityTokenMode" where
  "getConfiguredTokenMode e w =
     (let fallback = getContinuityTokenMode (processEnv e)
      in if \<not> dbOk e then fallback
         else (case continuity_settings (db w) of
                 None \<Rightarrow> fallback
               | Some row \<Rightarrow> (case parseTokenMode (token_mode row) of
                                Some m \<Rightarrow> m | None \<Rightarrow> fallback)))"

section \<open>The safeguard gate\<close>

record AutoCommitPolicy =
  requested :: bool
  allowed :: bool
  currentBranch :: jsstring

definition assessAutoCommitPolicy ::
    "env \<Rightarrow> jsstring \<Rightarrow> SafeguardSettings \<Rightarrow> world \<Rightarrow> AutoCommitPolicy \<times> world" where
  "assessAutoCommitPolicy e repoRoot settings w =
     (let isRequested = (artifactPolicy settings = AutoWriteMemoryBranch
                          \<and> autoCommitToMemoryBranch settings);
          branch = readCurrentBranch e;
          w = logGit [js ''rev-parse'', js ''--abbrev-ref'', js ''HEAD''] w
      in if \<not> isRequested
         then (\<lparr> requested = False, allowed = False, currentBranch = branch \<rparr>, w)
         else (\<lparr> requested = True, allowed = (branch = memoryBranch settings),
                 currentBranch = branch \<rparr>, w))"

section \<open>The artifact writer\<close>

text \<open>
  The table is kept in insertion order. The query of \<^verbatim>\<open>writeArtifactIfNew\<close> selects the
  rows of the sub-chat and type, orders them by \<^verbatim>\<open>created_at\<close> descending and keeps 12.
  The column holds whole seconds, so artifacts written within one second tie; SQL fixes
  no order among them, here they stay in insertion order, the older first.

  The column \<^verbatim>\<open>sub_chat_id\<close> is declared
  \<^verbatim>\<open>.notNull().references(() => subChats.id, ...)\<close> and the driver
  enforces foreign keys: the insert of an artifact for a sub-chat without a row in
  \<^verbatim>\<open>sub_chats\<close> throws, and the \<^verbatim>\<open>catch\<close> around the body swallows the error, so the
  call changes nothing. The generated identifier is the row number.
\<close>

definition recentArtifacts :: "jsstring \<Rightarrow> ArtifactType \<Rightarrow> ArtifactRow list \<Rightarrow> ArtifactRow list" where
  "recentArtifacts sub ty table =
     take 12 (sort_key (\<lambda>row. - art_created_at row)
                (filter (\<lambda>row. art_sub_chat_id row = sub \<and> art_type row = ty) table))"

definition newArtifact ::
    "env \<Rightarrow> nat \<Rightarrow> jsstring \<Rightarrow> ArtifactType \<Rightarrow> jsstring \<Rightarrow> jsstring \<Rightarrow> ArtifactRow" where
  "newArtifact e n sub ty fingerprint content =
     \<lparr> art_id = n, art_sub_chat_id = sub, art_type = ty, art_content = content,
       art_status = js ''draft'', art_event_fingerprint = Some fingerprint,
       art_created_by = Some (js ''continuity-service''),
       art_created_at = toStored (now e), art_updated_at = toStored (now e) \<rparr>"

definition writeArtifactIfNew ::
    "env \<Rightarrow> jsstring \<Rightarrow> ArtifactType \<Rightarrow> jsstring \<Rightarrow> jsstring \<Rightarrow> world \<Rightarrow> world" where
  "writeArtifactIfNew e sub ty fingerprint content w =
     (if \<not> dbOk e then w
      else (let existing = recentArtifacts sub ty (continuity_artifact (db w));
                alreadyExists =
                  list_ex (\<lambda>row. art_event_fingerprint row = Some fingerprint) existing
            in if alreadyExists then w
               else if sub_chats (db w) sub = None then w
               else w\<lparr>db := (db w)\<lparr>continuity_artifact := continuity_artifact (db w) @
                      [newArtifact e (length (continuity_artifact (db w)))
                         sub ty fingerprint content]\<rparr>\<rparr>))"

text \<open>A call of \<^verbatim>\<open>writeArtifactIfNew\<close> with the environment it runs in.\<close>

record ArtifactWrite =
  aw_env :: env
  aw_subChatId :: jsstring
  aw_type :: ArtifactType
  aw_eventFingerprint :: jsstring
  aw_content :: jsstring

definition runWrite :: "world \<Rightarrow> ArtifactWrite \<Rightarrow> world" where
  "runWrite w c =
     writeArtifactIfNew (aw_env c) (aw_subChatId c) (aw_type c) (aw_eventFingerprint c)
       (aw_content c) w"

definition runWrites :: "ArtifactWrite list \<Rightarrow> world \<Rightarrow> world" where
  "runWrites cs w = foldl runWrite w cs"



section \<open>Meaningful events\<close>

definition BOUNDARY_MODULE_PREFIXES :: "jsstring list" where
  "BOUNDARY_MODULE_PREFIXES = map js
     [''src/main/lib/trpc/'', ''src/main/lib/db/'', ''src/main/lib/continuity/'',
      ''src/main/lib/plugins/'', ''src/main/lib/mcp-'', ''src/main/lib/oauth'',
      ''src/main/lib/git/'']"

record MeaningfulEvents =
  devlog :: bool
  adr :: bool
  rejectedApproach :: bool
  rejectedReason :: jsstring
  eventReasons :: "jsstring list"
  boundaryFiles :: "jsstring list"
  eventFingerprint :: jsstring

definition detectMeaningfulEvents ::
    "RepoState \<Rightarrow> int \<Rightarrow> jsstring \<Rightarrow> bool \<Rightarrow> MeaningfulEvents" where
  "detectMeaningfulEvents repoState lines assistantResponse wasError =
     (let rs = [];
          rs = pushIf (lines \<ge> DEVLOG_DIFF_THRESHOLD)
                 (js ''diff>'' @ numberToString DEVLOG_DIFF_THRESHOLD) rs;
          rs = pushIf (int (length (changedFiles repoState)) \<ge> DEVLOG_FILE_THRESHOLD)
                 (js ''changed_files>'' @ numberToString DEVLOG_FILE_THRESHOLD) rs;
          responseLower = toLowerCase assistantResponse;
          reason = (if wasError then js ''run-error'' else js ''direction-change'');
          rejected = (wasError
                      \<or> includesStr responseLower (js ''instead'')
                      \<or> includesStr responseLower (js ''alternative approach'')
                      \<or> includesStr responseLower (js ''pivot''));
          boundary = filter (\<lambda>filePath. list_ex (\<lambda>p. startsWith filePath p)
                                BOUNDARY_MODULE_PREFIXES) (changedFiles repoState);
          isAdr = (length boundary > 0);
          rs = pushIf isAdr (js ''boundary-modules-touched'') rs;
          rs = pushIf wasError (js ''run-error'') rs;
          fingerprint = sha (joinWith (js '':'')
                          [headCommit repoState, changedFilesHash repoState,
                           numberToString lines, boolToString wasError,
                           take 160 responseLower])
      in \<lparr> devlog = (length rs > 0), adr = isAdr, rejectedApproach = rejected,
           rejectedReason = reason, eventReasons = rs, boundaryFiles = boundary,
           eventFingerprint = fingerprint \<rparr>)"

section \<open>Rehydrate\<close>

definition firstNonBlankRaw :: "jsstring \<Rightarrow> jsstring" where
  "firstNonBlankRaw s = (case firstNonBlankLine s of Some line \<Rightarrow> line | None \<Rightarrow> [])"

definition rehydrateText ::
    "jsstring \<Rightarrow> jsstring list \<Rightarrow> ArtifactRow list \<Rightarrow> jsstring \<Rightarrow> jsstring" where
  "rehydrateText subMode rs artifacts userPrompt =
     joinWith [newline]
       ([js ''[1CODE_CONTINUITY_REHYDRATE]'',
         js ''mode: '' @ subMode,
         js ''reasons: '' @ orElse (joinWith (js ''; '') rs) (js ''governor-pressure'')]
        @ map (\<lambda>artifact. js ''- '' @ artifactTypeText (art_type artifact) @ js '': ''
                  @ clampByBytes (firstNonBlankRaw (art_content artifact)) 180) artifacts
        @ [[], js ''latest_user_prompt: '' @ clampByBytes userPrompt 600])"

definition executeRehydrate ::
    "env \<Rightarrow> jsstring \<Rightarrow> jsstring \<Rightarrow> jsstring list \<Rightarrow> world \<Rightarrow> world" where
  "executeRehydrate e sub userPrompt rs w =
     (if \<not> dbOk e then w
      else (case sub_chats (db w) sub of
              None \<Rightarrow> w
            | Some subChat \<Rightarrow>
               (let artifacts = take 6 (sort_key (\<lambda>row. - art_created_at row)
                                  (filter (\<lambda>row. art_sub_chat_id row = sub)
                                     (continuity_artifact (db w))));
                    structuredState = rehydrateText (sub_mode subChat) rs artifacts userPrompt;
                    compactedMessages =
                      [\<lparr> msg_id = randomUUID e, msg_role = js ''assistant'',
                         msg_parts = Some [\<lparr> part_type = Some (js ''text''),
                                             part_text = Some structuredState \<rparr>],
                         msg_continuityRehydrate = True,
                         msg_createdAt = Some (isoNow e) \<rparr>];
                    subChat' = subChat\<lparr> sub_session_id := None, sub_stream_id := None,
                                 sub_messages := Some compactedMessages,
                                 sub_updated_at := toStored (now e) \<rparr>;
                    chats' = (case chats (db w) (sub_parent_chat_id subChat) of
                                None \<Rightarrow> chats (db w)
                              | Some t \<Rightarrow> (chats (db w))(sub_parent_chat_id subChat \<mapsto> toStored (now e)))
                in w\<lparr>db := (db w)\<lparr> sub_chats := (sub_chats (db w))(sub \<mapsto> subChat'),
                                   chats := chats' \<rparr>\<rparr>)))"

section \<open>recordRunOutcome\<close>

record ContinuityInput =
  subChatId :: jsstring
  cwd :: jsstring
  projectPath :: "jsstring option"
  prompt :: jsstring
  mode :: ChatMode
  provider :: ProviderKind

record RunOutcomeInput = ContinuityInput +
  assistantResponse :: jsstring
  injectedBytes :: "int option"
  wasError :: "bool option"

text \<open>\<^verbatim>\<open>input.projectPath || input.cwd\<close>\<close>

definition repoRootOf :: "'a ContinuityInput_scheme \<Rightarrow> jsstring" where
  "repoRootOf input = (case projectPath input of Some p \<Rightarrow> orElse p (cwd input) | None \<Rightarrow> cwd input)"

text \<open>\<^verbatim>\<open>Math.max(input.injectedBytes || 0, 0)\<close> and \<^verbatim>\<open>!!input.wasError\<close>\<close>

definition injectedOf :: "RunOutcomeInput \<Rightarrow> int" where
  "injectedOf input = max (case injectedBytes input of Some n \<Rightarrow> n | None \<Rightarrow> 0) 0"

definition wasErrorOf :: "RunOutcomeInput \<Rightarrow> bool" where
  "wasErrorOf input = (case wasError input of Some b \<Rightarrow> b | None \<Rightarrow> False)"

definition governorInputOf :: "env \<Rightarrow> PersistedState \<Rightarrow> RunOutcomeInput \<Rightarrow> RepoState \<Rightarrow> int \<Rightarrow> GovernorInput" where
  "governorInputOf e current input repoState lines =
     \<lparr> turnsSinceSnapshot = turnsSinceSnapshot current + 1,
       totalInjectedBytes = totalInjectedBytes current + injectedOf input,
       changedFilesCount = int (length (changedFiles repoState)),
       diffLines = lines,
       elapsedSinceSnapshotMs =
         (case lastSnapshotAt current of
            Some t \<Rightarrow> now e - t
          | None \<Rightarrow> REHYDRATE_ELAPSED_MS + 1) \<rparr>"

definition changedFilesText :: "nat \<Rightarrow> RepoState \<Rightarrow> jsstring" where
  "changedFilesText n repoState =
     orElse (joinWith (js '', '') (take n (changedFiles repoState))) (js ''none'')"

definition devlogContent ::
    "RunOutcomeInput \<Rightarrow> RepoState \<Rightarrow> int \<Rightarrow> MeaningfulEvents \<Rightarrow> SafeguardSettings
       \<Rightarrow> AutoCommitPolicy \<Rightarrow> jsstring" where
  "devlogContent input repoState lines meaningful settings policy =
     joinWith [newline]
       [js ''provider: '' @ providerText (provider input),
        js ''mode: '' @ chatModeText (mode input),
        js ''commit: '' @ headCommit repoState,
        js ''changed_files: '' @ changedFilesText 24 repoState,
        js ''diff_lines: '' @ numberToString lines,
        js ''signals: '' @ joinWith (js ''; '') (eventReasons meaningful),
        js ''artifact_policy: '' @ policyText (artifactPolicy settings),
        js ''memory_branch: '' @ memoryBranch settings,
        js ''auto_commit_eligible: '' @ boolToString (allowed policy),
        [],
        js ''prompt: '' @ clampByBytes (prompt input) 900,
        [],
        js ''assistant_summary: '' @ clampByBytes (assistantResponse input) 1500]"

definition adrContent :: "RunOutcomeInput \<Rightarrow> MeaningfulEvents \<Rightarrow> jsstring" where
  "adrContent input meaningful =
     joinWith [newline]
       [js ''status: draft'',
        js ''context: boundary module touch detected (''
          @ joinWith (js '', '') (take 12 (boundaryFiles meaningful)) @ js '')'',
        js ''decision: TBD'',
        js ''consequences: TBD'',
        [],
        js ''prompt: '' @ clampByBytes (prompt input) 900]"

definition rejectedContent :: "RunOutcomeInput \<Rightarrow> MeaningfulEvents \<Rightarrow> jsstring" where
  "rejectedContent input meaningful =
     joinWith [newline]
       [js ''reason: '' @ rejectedReason meaningful,
        js ''prompt: '' @ clampByBytes (prompt input) 900,
        js ''assistant_summary: '' @ clampByBytes (assistantResponse input) 1200]"

definition governorDevlogContent ::
    "GovernorAction \<Rightarrow> GovernorDecision \<Rightarrow> RepoState \<Rightarrow> int \<Rightarrow> SafeguardSettings
       \<Rightarrow> AutoCommitPolicy \<Rightarrow> jsstring" where
  "governorDevlogContent effective decision repoState lines settings policy =
     joinWith [newline]
       [js ''governor_action: '' @ actionText effective,
        js ''reasons: '' @ joinWith (js ''; '') (reasons decision),
        js ''changed_files: '' @ changedFilesText 20 repoState,
        js ''diff_lines: '' @ numberToString lines,
        js ''artifact_policy: '' @ policyText (artifactPolicy settings),
        js ''auto_commit_eligible: '' @ boolToString (allowed policy)]"

definition blockedFingerprint :: "RepoState \<Rightarrow> AutoCommitPolicy \<Rightarrow> jsstring" where
  "blockedFingerprint repoState policy =
     headCommit repoState @ js '':auto-commit-blocked:'' @ currentBranch policy"

definition blockedContent :: "SafeguardSettings \<Rightarrow> AutoCommitPolicy \<Rightarrow> jsstring" where
  "blockedContent settings policy =
     joinWith [newline]
       [js ''safeguard: auto commit blocked'',
        js ''current_branch: '' @ currentBranch policy,
        js ''required_memory_branch: '' @ memoryBranch settings,
        js ''policy: feature branches are protected from automatic continuity commits'']"

definition track :: "TelemetryEvent \<Rightarrow> world \<Rightarrow> world" where
  "track ev w = w\<lparr>telemetry := telemetry w @ [ev]\<rparr>"

text \<open>\<^verbatim>\<open>if (c) { await step }\<close> on the world.\<close>

definition whenW :: "bool \<Rightarrow> (world \<Rightarrow> world) \<Rightarrow> world \<Rightarrow> world" where
  "whenW c step w = (if c then step w else w)"

text \<open>
  In active mode the settings and the auto-commit policy are always present, so the
  tests \<^verbatim>\<open>safeguardSettings && autoCommitPolicy\<close> of the source reduce to the mode; in
  passive mode neither is read.
\<close>

definition recordRunOutcome :: "env \<Rightarrow> RunOutcomeInput \<Rightarrow> world \<Rightarrow> GovernorDecision \<times> world" where
  "recordRunOutcome e input w0 =
     (let continuityMode = getContinuityMode (processEnv e)
      in if continuityMode = ModeOff then (\<lparr> action = Ok, reasons = [] \<rparr>, w0)
         else
          (let active = (continuityMode = ModeActive);
               sub = subChatId input;
               repoRoot = repoRootOf input;
               (repoState, w) = getRepoState e repoRoot w0;
               (lines, w) = getDiffStats e repoRoot w;
               current = getPersistedState e sub w;
               (settings, w) = (if active then getSafeguardSettings e w
                                else (fallbackSettings e, w));
               (policy, w) = (if active then assessAutoCommitPolicy e repoRoot settings w
                              else (\<lparr> requested = False, allowed = False,
                                      currentBranch = [] \<rparr>, w));
               governorDecision = decideGovernor (governorInputOf e current input repoState lines);
               capabilities = getContinuityGovernorCapabilities (processEnv e);
               effective = effectiveGovernorAction capabilities governorDecision;
               meaningful = detectMeaningfulEvents repoState lines (assistantResponse input)
                              (wasErrorOf input);
               w = whenW (active \<and> devlog meaningful)
                     (writeArtifactIfNew e sub Devlog (eventFingerprint meaningful)
                        (devlogContent input repoState lines meaningful settings policy)) w;
               w = whenW (active \<and> adr meaningful)
                     (writeArtifactIfNew e sub Adr (eventFingerprint meaningful @ js '':adr'')
                        (adrContent input meaningful)) w;
               w = whenW (active \<and> rejectedApproach meaningful)
                     (writeArtifactIfNew e sub RejectedApproach
                        (eventFingerprint meaningful @ js '':rejected'')
                        (rejectedContent input meaningful)) w;
               w = persistGovernorState e sub (changedFilesHash repoState)
                     \<lparr> turnsSinceSnapshot =
                         (if effective = Ok then turnsSinceSnapshot current + 1 else 0),
                       totalInjectedBytes =
                         (if effective = Ok then totalInjectedBytes current + injectedOf input
                          else 0),
                       lastSnapshotAt =
                         (if effective = Ok then lastSnapshotAt current else Some (now e)) \<rparr> w;
               w = whenW (active \<and> effective \<noteq> Ok)
                     (writeArtifactIfNew e sub Devlog
                        (sub @ js '':'' @ numberToString (now e) @ js '':'' @ actionText effective)
                        (governorDevlogContent effective governorDecision repoState lines
                           settings policy)) w;
               w = track (GovernorActionEvent (provider input) (mode input) effective
                            (length (reasons governorDecision))) w;
               w = whenW (active \<and> requested policy)
                     (track (SafeguardEvent
                               (if allowed policy then js ''auto-commit-allowed''
                                else js ''auto-commit-blocked'')
                               (currentBranch policy) (memoryBranch settings))) w;
               w = whenW (active \<and> requested policy \<and> \<not> allowed policy)
                     (writeArtifactIfNew e sub Devlog (blockedFingerprint repoState policy)
                        (blockedContent settings policy)) w;
               w = whenW (active \<and> effective = Rehydrate)
                     (executeRehydrate e sub (prompt input) (reasons governorDecision)) w
           in (\<lparr> action = effective, reasons = reasons governorDecision \<rparr>, w)))"

section \<open>File summaries\<close>

definition isWordUnit :: "16 word \<Rightarrow> bool" where
  "isWordUnit c =
     ((0x61 \<le> c \<and> c \<le> 0x7A) \<or> (0x41 \<le> c \<and> c \<le> 0x5A)
      \<or> (0x30 \<le> c \<and> c \<le> 0x39) \<or> c = 0x5F)"

text \<open>\<^verbatim>\<open>kw\s+\<close> and \<^verbatim>\<open>kw\s+\w+\<close> at the start of a line.\<close>

definition keywordSpace :: "jsstring \<Rightarrow> jsstring \<Rightarrow> bool" where
  "keywordSpace kw line =
     (startsWith line kw
      \<and> (case drop (length kw) line of c # rest \<Rightarrow> isWhiteSpace c | [] \<Rightarrow> False))"

definition keywordSpaceWord :: "jsstring \<Rightarrow> jsstring \<Rightarrow> bool" where
  "keywordSpaceWord kw line =
     (keywordSpace kw line
      \<and> (case dropWhile isWhiteSpace (drop (length kw) line) of
            c # rest \<Rightarrow> isWordUnit c | [] \<Rightarrow> False))"

definition exportLike :: "jsstring \<Rightarrow> bool" where
  "exportLike line =
     (keywordSpace (js ''export'') line
      \<or> startsWith line (js ''module.exports'')
      \<or> keywordSpaceWord (js ''class'') line
      \<or> keywordSpaceWord (js ''function'') line
      \<or> keywordSpaceWord (js ''interface'') line
      \<or> keywordSpaceWord (js ''type'') line)"

definition buildFileSummary :: "jsstring \<Rightarrow> jsstring \<Rightarrow> jsstring" where
  "buildFileSummary filePath content =
     (let ls = splitLines content;
          symbols = map trim (take MAX_SUMMARY_LINES (filter (\<lambda>line. exportLike (trim line)) ls));
          firstNonEmpty = (case firstNonBlankLine content of
                             Some line \<Rightarrow> trim line | None \<Rightarrow> []);
          details = [js ''file: '' @ filePath,
                     js ''lines: '' @ numberToString (int (length ls))];
          details = pushIf (firstNonEmpty \<noteq> [])
                      (js ''first_line: '' @ take 120 firstNonEmpty) details;
          details = pushIf (length symbols > 0)
                      (js ''symbols: '' @ take 900 (joinWith (js '' | '') symbols)) details
      in joinWith [newline] details)"

definition getPersistedSummary :: "env \<Rightarrow> jsstring \<Rightarrow> world \<Rightarrow> jsstring option" where
  "getPersistedSummary e key w =
     (if \<not> dbOk e then None
      else (case continuity_file_cache (db w) key of
              None \<Rightarrow> None
            | Some row \<Rightarrow> (if fc_summary row = [] then None else Some (fc_summary row))))"

definition storePersistedSummary ::
    "env \<Rightarrow> jsstring \<Rightarrow> jsstring \<Rightarrow> jsstring \<Rightarrow> jsstring \<Rightarrow> jsstring \<Rightarrow> world \<Rightarrow> world" where
  "storePersistedSummary e key repoRoot filePath contentHash summary w =
     (if \<not> dbOk e then w
      else w\<lparr>db := (db w)\<lparr>continuity_file_cache := (continuity_file_cache (db w))(key \<mapsto>
             (case continuity_file_cache (db w) key of
                None \<Rightarrow> \<lparr> fc_repo_root = repoRoot, fc_file_path = filePath,
                          fc_content_hash = contentHash, fc_summary = summary,
                          fc_updated_at = toStored (now e) \<rparr>
              | Some row \<Rightarrow> row\<lparr> fc_summary := summary, fc_content_hash := contentHash,
                                 fc_updated_at := toStored (now e) \<rparr>))\<rparr>\<rparr>)"

definition readSummary ::
    "env \<Rightarrow> jsstring \<Rightarrow> jsstring \<Rightarrow> int \<Rightarrow> world \<Rightarrow> jsstring option \<times> world" where
  "readSummary e repoRoot relativePath maxRead w =
     (case fileSystem e repoRoot relativePath of
        None \<Rightarrow> (None, w)
      | Some info \<Rightarrow>
         (if \<not> isFile info \<or> fileSize info > maxRead then (None, w)
          else (case fileContent info of
                  None \<Rightarrow> (None, w)
                | Some content \<Rightarrow>
                   (let contentHash = sha content;
                        summaryHash = sha (repoRoot @ js '':'' @ relativePath @ js '':''
                                           @ contentHash)
                    in (case fileSummaryCache w summaryHash of
                          Some cached \<Rightarrow> (Some cached, w)
                        | None \<Rightarrow>
                           (case getPersistedSummary e summaryHash w of
                              Some persisted \<Rightarrow>
                                (Some persisted,
                                 w\<lparr>fileSummaryCache :=
                                      (fileSummaryCache w)(summaryHash \<mapsto> persisted)\<rparr>)
                            | None \<Rightarrow>
                               (let summary = buildFileSummary relativePath content;
                                    w = w\<lparr>fileSummaryCache :=
                                           (fileSummaryCache w)(summaryHash \<mapsto> summary)\<rparr>;
                                    w = storePersistedSummary e summaryHash repoRoot
                                          relativePath contentHash summary w
                                in (Some summary, w))))))))"

section \<open>File search\<close>

definition slash :: "16 word" where
  "slash = 0x2F"

text \<open>\<^verbatim>\<open>path.basename\<close> with the POSIX separator.\<close>

definition basename :: "jsstring \<Rightarrow> jsstring" where
  "basename p =
     rev (takeWhile (\<lambda>c. c \<noteq> slash) (dropWhile (\<lambda>c. c = slash) (rev p)))"

definition scoreFile :: "jsstring list \<Rightarrow> jsstring \<Rightarrow> int" where
  "scoreFile keywords filePath =
     (let lower = toLowerCase filePath
      in fold (\<lambda>keyword score.
                 score + (if includesStr lower keyword then 3 else 0)
                       + (if includesStr (basename lower) keyword then 4 else 0))
           keywords 0)"

definition getPersistedSearch :: "env \<Rightarrow> jsstring \<Rightarrow> world \<Rightarrow> CachedSearchResult option" where
  "getPersistedSearch e cacheKey w =
     (if \<not> dbOk e then None
      else (case continuity_search_cache (db w) cacheKey of
              None \<Rightarrow> None
            | Some row \<Rightarrow>
               (case sc_updated_at row of
                  None \<Rightarrow> None
                | Some updatedAt \<Rightarrow>
                   (if now e - fromStored updatedAt > SEARCH_TTL_MS then None
                    else (case sc_result_files row of
                            None \<Rightarrow> None
                          | Some fs \<Rightarrow> Some \<lparr> timestamp = fromStored updatedAt, files = fs \<rparr>)))))"

definition storePersistedSearch ::
    "env \<Rightarrow> jsstring \<Rightarrow> jsstring \<Rightarrow> jsstring \<Rightarrow> jsstring \<Rightarrow> CachedSearchResult
       \<Rightarrow> world \<Rightarrow> world" where
  "storePersistedSearch e cacheKey repoRoot keywordQuery head result w =
     (if \<not> dbOk e then w
      else w\<lparr>db := (db w)\<lparr>continuity_search_cache := (continuity_search_cache (db w))(cacheKey \<mapsto>
             \<lparr> sc_repo_root = repoRoot, sc_query = keywordQuery, sc_commit_hash = head,
               sc_scope = (case continuity_search_cache (db w) cacheKey of
                             None \<Rightarrow> js ''repo'' | Some row \<Rightarrow> sc_scope row),
               sc_result_files = Some (files result),
               sc_updated_at = Some (toStored (timestamp result)) \<rparr>)\<rparr>\<rparr>)"

definition searchRelevantFiles ::
    "env \<Rightarrow> jsstring \<Rightarrow> jsstring list \<Rightarrow> jsstring \<Rightarrow> world \<Rightarrow> jsstring list \<times> world" where
  "searchRelevantFiles e repoRoot keywords head w =
     (if length keywords = 0 then ([], w)
      else
       (let keywordQuery = joinWith (js '','') keywords;
            cacheKey = repoRoot @ js '':'' @ head @ js '':'' @ keywordQuery;
            fresh = (case searchCache w cacheKey of
                       None \<Rightarrow> None
                     | Some cached \<Rightarrow>
                        (if now e - timestamp cached < SEARCH_TTL_MS then Some cached else None))
        in (case fresh of
              Some cached \<Rightarrow> (files cached, w)
            | None \<Rightarrow>
               (case getPersistedSearch e cacheKey w of
                  Some persistedSearch \<Rightarrow>
                    (files persistedSearch,
                     w\<lparr>searchCache := (searchCache w)(cacheKey \<mapsto> persistedSearch)\<rparr>)
                | None \<Rightarrow>
                   (let scored =
                          map fst (take 24 (sort_key (\<lambda>entry. - snd entry)
                            (filter (\<lambda>entry. snd entry > 0)
                               (map (\<lambda>filePath. (filePath, scoreFile keywords filePath))
                                  (listFiles e)))));
                        persisted = \<lparr> timestamp = now e, files = scored \<rparr>;
                        w = w\<lparr>searchCache := (searchCache w)(cacheKey \<mapsto> persisted)\<rparr>;
                        w = storePersistedSearch e cacheKey repoRoot keywordQuery head
                              persisted w
                    in (scored, w))))))"

section \<open>The packs\<close>

definition ANCHOR_FILES :: "jsstring list" where
  "ANCHOR_FILES = map js [''AGENTS.md'', ''CLAUDE.md'', ''README.md'']"

definition readAnchor :: "env \<Rightarrow> jsstring \<Rightarrow> jsstring \<Rightarrow> jsstring option" where
  "readAnchor e repoRoot relativePath =
     (case fileSystem e repoRoot relativePath of
        None \<Rightarrow> None
      | Some info \<Rightarrow>
         (case fileContent info of
            None \<Rightarrow> None
          | Some content \<Rightarrow>
              Some (js ''## '' @ relativePath @ [newline] @ clampByBytes content 3000)))"

definition buildAnchorPack :: "env \<Rightarrow> jsstring \<Rightarrow> jsstring" where
  "buildAnchorPack e repoRoot =
     (let parts = List.map_filter (readAnchor e repoRoot) ANCHOR_FILES
      in if length parts = 0 then js ''No anchor files found.''
         else joinWith [newline, newline] parts)"

text \<open>The loop over the candidate files of \<^verbatim>\<open>buildContextPack\<close>, with its \<^verbatim>\<open>break\<close>.\<close>

fun collectSummaries ::
    "env \<Rightarrow> jsstring \<Rightarrow> ContinuityBudgetProfile \<Rightarrow> jsstring list \<Rightarrow> jsstring list \<Rightarrow> int
       \<Rightarrow> world \<Rightarrow> jsstring list \<times> world" where
  "collectSummaries e repoRoot budget [] summaries totalBytes w = (summaries, w)"
| "collectSummaries e repoRoot budget (filePath # rest) summaries totalBytes w =
     (case readSummary e repoRoot filePath (maxFileReadBytes budget) w of
        (None, w') \<Rightarrow> collectSummaries e repoRoot budget rest summaries totalBytes w'
      | (Some summary, w') \<Rightarrow>
         (if summary = [] then collectSummaries e repoRoot budget rest summaries totalBytes w'
          else if totalBytes + byteLength summary > maxContextSummaryBytes budget
          then (summaries, w')
          else collectSummaries e repoRoot budget rest (summaries @ [summary])
                 (totalBytes + byteLength summary) w'))"

definition buildContextPack ::
    "env \<Rightarrow> jsstring \<Rightarrow> RepoState \<Rightarrow> jsstring \<Rightarrow> ContinuityBudgetProfile \<Rightarrow> world
       \<Rightarrow> jsstring \<times> world" where
  "buildContextPack e repoRoot repoState userPrompt budget w =
     (let keywords = extractKeywords userPrompt;
          (searchHits, w) = searchRelevantFiles e repoRoot keywords (headCommit repoState) w;
          candidateFiles = take 4 (changedFiles repoState) @ searchHits;
          uniqueFiles = take (maxContextFiles budget) (uniqueInOrder candidateFiles)
      in if length uniqueFiles = 0 then (js ''No relevant files identified.'', w)
         else (let (summaries, w) = collectSummaries e repoRoot budget uniqueFiles [] 0 w
               in (joinWith (js ''\<newline>\<newline>---\<newline>\<newline>'') summaries, w)))"

text \<open>The failing-test digest, from the last 12 messages of the sub-chat.\<close>

definition partTexts :: "Message \<Rightarrow> jsstring list" where
  "partTexts message =
     (case msg_parts message of
        None \<Rightarrow> []
      | Some parts \<Rightarrow>
          List.map_filter (\<lambda>part. if part_type part = Some (js ''text'') then part_text part
                                  else None) parts)"

text \<open>\<^verbatim>\<open>/fail|failed|error|exception|assert/i\<close>\<close>

definition failurePattern :: "jsstring \<Rightarrow> bool" where
  "failurePattern line =
     (let lower = toLowerCase line
      in includesStr lower (js ''fail'') \<or> includesStr lower (js ''failed'')
         \<or> includesStr lower (js ''error'') \<or> includesStr lower (js ''exception'')
         \<or> includesStr lower (js ''assert''))"

definition getLatestFailingTestDigest :: "env \<Rightarrow> jsstring \<Rightarrow> world \<Rightarrow> jsstring" where
  "getLatestFailingTestDigest e sub w =
     (if \<not> dbOk e then []
      else (case sub_chats (db w) sub of
              None \<Rightarrow> []
            | Some row \<Rightarrow>
               (case sub_messages row of
                  None \<Rightarrow> []
                | Some parsed \<Rightarrow>
                   (let textLines = concat (map partTexts (lastN 12 parsed));
                        joined = joinWith [newline] textLines;
                        failureLines = lastN 40 (filter failurePattern (splitLines joined))
                    in if length failureLines = 0 then []
                       else clampByBytes (joinWith [newline] failureLines) 2000))))"

definition getSubChatState :: "env \<Rightarrow> jsstring \<Rightarrow> world \<Rightarrow> jsstring option \<times> world" where
  "getSubChatState e sub w =
     (case subChatState w sub of
        Some hot \<Rightarrow> (Some hot, w)
      | None \<Rightarrow>
         (if \<not> dbOk e then (None, w)
          else (case continuity_state (db w) sub of
                  None \<Rightarrow> (None, w)
                | Some row \<Rightarrow>
                    (Some (last_changed_files_hash row),
                     w\<lparr>subChatState := (subChatState w)(sub \<mapsto> last_changed_files_hash row)\<rparr>))))"

definition storeSubChatState :: "env \<Rightarrow> jsstring \<Rightarrow> jsstring \<Rightarrow> jsstring \<Rightarrow> world \<Rightarrow> world" where
  "storeSubChatState e sub hash pack w =
     (let w = w\<lparr>subChatState := (subChatState w)(sub \<mapsto> hash)\<rparr>
      in if \<not> dbOk e then w
         else w\<lparr>db := (db w)\<lparr>continuity_state := (continuity_state (db w))(sub \<mapsto>
                (case continuity_state (db w) sub of
                   None \<Rightarrow> \<lparr> last_changed_files_hash = hash, turns_since_snapshot = 0,
                             total_injected_bytes = byteLength pack, last_snapshot_at = None,
                             st_updated_at = toStored (now e) \<rparr>
                 | Some row \<Rightarrow> row\<lparr> last_changed_files_hash := hash,
                                    total_injected_bytes := byteLength pack,
                                    st_updated_at := toStored (now e) \<rparr>))\<rparr>\<rparr>)"

definition buildDeltaPack ::
    "env \<Rightarrow> jsstring \<Rightarrow> jsstring \<Rightarrow> RepoState \<Rightarrow> jsstring \<Rightarrow> world \<Rightarrow> jsstring \<times> world" where
  "buildDeltaPack e sub repoRoot repoState userPrompt w =
     (let (diffSnippet, w) = getDiffSnippet e repoRoot w;
          failingTestDigest = getLatestFailingTestDigest e sub w;
          objective = objectiveOf userPrompt;
          (previous, w) = getSubChatState e sub w;
          full = (\<lambda>firstLine.
                    joinWith [newline]
                      [firstLine,
                       js ''objective: '' @ clampByBytes objective 200,
                       js ''changed_files: '' @ changedFilesText 20 repoState,
                       js ''failing_test_digest: '' @ orElse failingTestDigest (js ''none''),
                       [],
                       js ''[DIFF_SNIPPET]'',
                       orElse diffSnippet (js ''none'')])
      in (case previous of
            None \<Rightarrow> (full (js ''first_run: true''), w)
          | Some lastHash \<Rightarrow>
             (if lastHash = changedFilesHash repoState
              then (joinWith [newline]
                      [js ''repo_delta: unchanged'',
                       js ''objective: '' @ clampByBytes objective 200,
                       js ''failing_test_digest: '' @ orElse failingTestDigest (js ''none'')], w)
              else (full (js ''repo_delta: changed''), w))))"

section \<open>The pack cache\<close>

text \<open>
  \<^verbatim>\<open>getCachedPack\<close> answers from the in-memory map, then from the table; an empty pack
  counts as absent in both (\<^verbatim>\<open>if (hot)\<close>, \<^verbatim>\<open>if (!row?.pack)\<close>).
\<close>

definition getCachedPack :: "env \<Rightarrow> jsstring \<Rightarrow> world \<Rightarrow> jsstring option \<times> world" where
  "getCachedPack e key w =
     (let fromTable =
            (if \<not> dbOk e then (None, w)
             else (case continuity_pack_cache (db w) key of
                     None \<Rightarrow> (None, w)
                   | Some row \<Rightarrow>
                      (if pc_pack row = [] then (None, w)
                       else (Some (pc_pack row),
                             w\<lparr>contextPackCache := (contextPackCache w)(key \<mapsto> pc_pack row)\<rparr>))))
      in (case contextPackCache w key of
            None \<Rightarrow> fromTable
          | Some hot \<Rightarrow> (if hot = [] then fromTable else (Some hot, w))))"

definition storeCachedPack :: "env \<Rightarrow> jsstring \<Rightarrow> PackCacheRow \<Rightarrow> world \<Rightarrow> world" where
  "storeCachedPack e key row w =
     (let w = w\<lparr>contextPackCache := (contextPackCache w)(key \<mapsto> pc_pack row)\<rparr>
      in if \<not> dbOk e then w
         else w\<lparr>db := (db w)\<lparr>continuity_pack_cache :=
                                 (continuity_pack_cache (db w))(key \<mapsto> row)\<rparr>\<rparr>)"

section \<open>apply\<close>

text \<open>
  \<^verbatim>\<open>ContinuityService.apply\<close> is \<open>applyContinuity\<close> (\<open>apply\<close> is a keyword here); the
  fields \<^verbatim>\<open>prompt\<close> and \<^verbatim>\<open>injectedBytes\<close> of its output are \<open>promptOut\<close> and
  \<open>injectedBytesOut\<close>, since the input records have fields of these names.
\<close>

record StateIds =
  anchorPackId :: jsstring
  contextPackId :: jsstring
  deltaPackId :: jsstring
  planContractId :: "jsstring option"

record ContinuityOutput =
  promptOut :: jsstring
  cacheHit :: bool
  injectedBytesOut :: int
  reusedPercent :: int
  stateIds :: StateIds

text \<open>
  The cache key is the six fields joined by colons:
  \<^verbatim>\<open>
  const cacheKey = [
    taskFingerprint, repoState.changedFilesHash, repoState.headCommit,
    input.provider, input.mode, String(budget.maxPackBytes),
  ].join(":")
  \<close>
\<close>

definition cacheKeyOf ::
    "ContinuityInput \<Rightarrow> RepoState \<Rightarrow> ContinuityBudgetProfile \<Rightarrow> jsstring" where
  "cacheKeyOf input repoState budget =
     joinWith (js '':'')
       [sha (normalizePrompt (prompt input)),
        changedFilesHash repoState,
        headCommit repoState,
        providerText (provider input),
        chatModeText (mode input),
        numberToString (maxPackBytes budget)]"

definition planContractIdOf :: "ContinuityInput \<Rightarrow> jsstring option" where
  "planContractIdOf input =
     (if mode input = Plan then Some (sha (normalizePrompt (prompt input))) else None)"

definition stateIdLines :: "StateIds \<Rightarrow> jsstring list" where
  "stateIdLines ids =
     [js ''[1CODE_CONTINUITY_STATE_IDS]'',
      js ''anchorPackId: '' @ anchorPackId ids,
      js ''contextPackId: '' @ contextPackId ids,
      js ''deltaPackId: '' @ deltaPackId ids,
      js ''planContractId: '' @
        (case planContractId ids of Some p \<Rightarrow> orElse p (js ''none'') | None \<Rightarrow> js ''none''),
      []]"

definition objectiveLines :: "jsstring \<Rightarrow> jsstring \<Rightarrow> jsstring list" where
  "objectiveLines deltaPack objectiveLine =
     [js ''[1CODE_CONTINUITY_DELTA]'',
      deltaPack,
      [],
      js ''[1CODE_OBJECTIVE]'',
      clampByBytes objectiveLine 240,
      [],
      js ''[1CODE_USER_REQUEST]'']"

definition deltaOnlyEnvelope :: "StateIds \<Rightarrow> jsstring \<Rightarrow> jsstring \<Rightarrow> jsstring" where
  "deltaOnlyEnvelope ids deltaPack objectiveLine =
     joinWith [newline] (stateIdLines ids @ objectiveLines deltaPack objectiveLine)"

definition planContractOf :: "ContinuityInput \<Rightarrow> StateIds \<Rightarrow> jsstring \<Rightarrow> jsstring" where
  "planContractOf input ids objectiveLine =
     (if mode input = Plan
      then js ''id: '' @ (case planContractId ids of Some p \<Rightarrow> p | None \<Rightarrow> js ''null'')
           @ [newline] @ js ''max_steps: 6'' @ [newline]
           @ js ''objective: '' @ clampByBytes objectiveLine 200 @ [newline]
           @ js ''format: compact-structured''
      else [])"

definition compositeEnvelope ::
    "ContinuityInput \<Rightarrow> StateIds \<Rightarrow> jsstring \<Rightarrow> jsstring \<Rightarrow> jsstring \<Rightarrow> jsstring
       \<Rightarrow> jsstring" where
  "compositeEnvelope input ids anchorPack contextPack deltaPack objectiveLine =
     joinWith [newline]
       (stateIdLines ids
        @ [js ''[1CODE_CONTINUITY_ANCHOR]'', anchorPack, [],
           js ''[1CODE_CONTINUITY_CONTEXT]'', contextPack, []]
        @ (if mode input = Plan
           then [js ''[1CODE_PLAN_CONTRACT]'', planContractOf input ids objectiveLine, []]
           else [])
        @ objectiveLines deltaPack objectiveLine)"

definition withPrompt :: "jsstring \<Rightarrow> ContinuityInput \<Rightarrow> jsstring" where
  "withPrompt pack input = pack @ [newline, newline] @ prompt input"

definition injectedFor :: "jsstring \<Rightarrow> ContinuityInput \<Rightarrow> int" where
  "injectedFor selectedPrompt input =
     max (byteLength selectedPrompt - byteLength (prompt input)) 0"

definition applyContinuity :: "env \<Rightarrow> ContinuityInput \<Rightarrow> world \<Rightarrow> ContinuityOutput \<times> world" where
  "applyContinuity e input w0 =
     (let continuityMode = getContinuityMode (processEnv e);
          budget = getContinuityBudgetProfile (getConfiguredTokenMode e w0);
          fallbackStateIds = \<lparr> anchorPackId = js ''none'', contextPackId = js ''none'',
                               deltaPackId = js ''none'',
                               planContractId = planContractIdOf input \<rparr>
      in if continuityMode = ModeOff
         then (\<lparr> promptOut = prompt input, cacheHit = False, injectedBytesOut = 0,
                 reusedPercent = 100, stateIds = fallbackStateIds \<rparr>, w0)
         else
          (let sub = subChatId input;
               repoRoot = repoRootOf input;
               (repoState, w) = getRepoState e repoRoot w0;
               cacheKey = cacheKeyOf input repoState budget;
               objectiveLine = objectiveOf (prompt input);
               (cached, w) = getCachedPack e cacheKey w;
               (deltaPack, w) = buildDeltaPack e sub repoRoot repoState (prompt input) w;
               ids = \<lparr> anchorPackId = sha (repoRoot @ js '':anchor:'' @ headCommit repoState),
                       contextPackId = sha cacheKey,
                       deltaPackId = sha deltaPack,
                       planContractId = planContractIdOf input \<rparr>;
               canUseDeltaOnly = (protocolState w sub = Some cacheKey)
           in (case cached of
                 Some pack \<Rightarrow>
                  (let selectedPrompt =
                         (if canUseDeltaOnly
                          then withPrompt (deltaOnlyEnvelope ids deltaPack objectiveLine) input
                          else withPrompt pack input);
                       injected = injectedFor selectedPrompt input;
                       reused = (if canUseDeltaOnly then 95 else 75);
                       w = track (PackMetrics (provider input) (mode input) True
                                    (byteLength selectedPrompt) injected reused) w;
                       w = w\<lparr>protocolState := (protocolState w)(sub \<mapsto> cacheKey)\<rparr>
                   in if continuityMode = ModePassive
                      then (\<lparr> promptOut = prompt input, cacheHit = True, injectedBytesOut = 0,
                              reusedPercent = reused, stateIds = ids \<rparr>, w)
                      else (\<lparr> promptOut = selectedPrompt, cacheHit = True,
                              injectedBytesOut = injected, reusedPercent = reused,
                              stateIds = ids \<rparr>, w))
               | None \<Rightarrow>
                  (let anchorPack = buildAnchorPack e repoRoot;
                       (contextPack, w) = buildContextPack e repoRoot repoState (prompt input)
                                            budget w;
                       composite = compositeEnvelope input ids anchorPack contextPack deltaPack
                                     objectiveLine;
                       budgeted = clampByBytes composite (maxPackBytes budget);
                       w = storeCachedPack e cacheKey
                             \<lparr> pc_task_fingerprint = sha (normalizePrompt (prompt input)),
                               pc_changed_files_hash = changedFilesHash repoState,
                               pc_head_commit = headCommit repoState,
                               pc_provider = providerText (provider input),
                               pc_mode = chatModeText (mode input),
                               pc_budget_bytes = maxPackBytes budget,
                               pc_pack = budgeted,
                               pc_updated_at = toStored (now e) \<rparr> w;
                       w = storeSubChatState e sub (changedFilesHash repoState) budgeted w;
                       w = w\<lparr>protocolState := (protocolState w)(sub \<mapsto> cacheKey)\<rparr>;
                       injected = injectedFor (withPrompt budgeted input) input;
                       w = track (PackMetrics (provider input) (mode input) False
                                    (byteLength budgeted) injected 35) w
                   in if continuityMode = ModePassive
                      then (\<lparr> promptOut = prompt input, cacheHit = False, injectedBytesOut = 0,
                              reusedPercent = 35, stateIds = ids \<rparr>, w)
                      else (\<lparr> promptOut = withPrompt budgeted input, cacheHit = False,
                              injectedBytesOut = injected, reusedPercent = 35,
                              stateIds = ids \<rparr>, w)))))"

section \<open>Notions used in the statements\<close>

text \<open>
  The artifact table after a call of \<^verbatim>\<open>writeArtifactIfNew\<close>, from the table before it
  and the table of the sub-chats.
\<close>

definition artifactsAfter ::
    "env \<Rightarrow> (jsstring \<Rightarrow> SubChatRow option) \<Rightarrow> jsstring \<Rightarrow> ArtifactType \<Rightarrow> jsstring
       \<Rightarrow> jsstring \<Rightarrow> ArtifactRow list \<Rightarrow> ArtifactRow list" where
  "artifactsAfter e subChats sub ty fingerprint content table =
     (if dbOk e \<and> \<not> list_ex (\<lambda>row. art_event_fingerprint row = Some fingerprint)
                        (recentArtifacts sub ty table)
             \<and> subChats sub \<noteq> None
      then table @ [newArtifact e (length table) sub ty fingerprint content]
      else table)"


text \<open>
  The counters and the snapshot time (in seconds) that the row of a sub-chat in
  \<^verbatim>\<open>continuity_state\<close> holds, with the defaults for a sub-chat that has no row.
\<close>

definition priorTurns :: "jsstring \<Rightarrow> world \<Rightarrow> int" where
  "priorTurns sub w =
     (case continuity_state (db w) sub of None \<Rightarrow> 0 | Some row \<Rightarrow> turns_since_snapshot row)"

definition priorBytes :: "jsstring \<Rightarrow> world \<Rightarrow> int" where
  "priorBytes sub w =
     (case continuity_state (db w) sub of None \<Rightarrow> 0 | Some row \<Rightarrow> total_injected_bytes row)"

definition priorSnapshotAt :: "jsstring \<Rightarrow> world \<Rightarrow> int option" where
  "priorSnapshotAt sub w =
     (case continuity_state (db w) sub of None \<Rightarrow> None | Some row \<Rightarrow> last_snapshot_at row)"

text \<open>
  The values \<^verbatim>\<open>recordRunOutcome\<close> computes on its way: the governor decision, the
  safeguard settings and the auto-commit policy of a call.
\<close>

definition decisionOf :: "env \<Rightarrow> RunOutcomeInput \<Rightarrow> world \<Rightarrow> GovernorDecision" where
  "decisionOf e input w =
     decideGovernor (governorInputOf e (getPersistedState e (subChatId input) w) input
                       (readRepoState e) (diffTotalLines e))"




text \<open>The budget and the cache key of a call of \<^verbatim>\<open>apply\<close>.\<close>

definition budgetOf :: "env \<Rightarrow> world \<Rightarrow> ContinuityBudgetProfile" where
  "budgetOf e w = getContinuityBudgetProfile (getConfiguredTokenMode e w)"

definition applyKey :: "env \<Rightarrow> ContinuityInput \<Rightarrow> world \<Rightarrow> jsstring" where
  "applyKey e input w = cacheKeyOf input (readRepoState e) (budgetOf e w)"

text \<open>Concrete inputs for the examples.\<close>

definition emptyDb :: database where
  "emptyDb =
     \<lparr> continuity_file_cache = Map.empty, continuity_search_cache = Map.empty,
       continuity_pack_cache = Map.empty, continuity_state = Map.empty,
       continuity_artifact = [], continuity_settings = None,
       sub_chats = Map.empty, chats = Map.empty \<rparr>"

definition emptyWorld :: world where
  "emptyWorld =
     \<lparr> searchCache = Map.empty, fileSummaryCache = Map.empty, contextPackCache = Map.empty,
       subChatState = Map.empty, protocolState = Map.empty, db = emptyDb,
       telemetry = [], gitCalls = [] \<rparr>"

definition activeEnv :: env where
  "activeEnv =
     \<lparr> processEnv = [''ONECODE_CONTINUITY_MODE'' \<mapsto> js ''active''],
       dbOk = True, now = 1000000,
       gitHead = Some (js ''abc123''), gitStatusPaths = Some [js ''src/a.ts''],
       gitBranch = Some (js ''feature/x''), gitDiff = Some (js ''+x''),
       diffTotalLines = 300, rgFiles = Some [],
       fileSystem = (\<lambda>root path. None), randomUUID = js ''id-1'',
       isoNow = js ''2026-01-01T00:00:00.000Z'' \<rparr>"

definition exampleInput :: ContinuityInput where
  "exampleInput =
     \<lparr> subChatId = js ''s1'', cwd = js ''/repo'', projectPath = None,
       prompt = js ''fix it'', mode = Agent, provider = Claude \<rparr>"

definition exampleRun :: RunOutcomeInput where
  "exampleRun =
     \<lparr> subChatId = js ''s1'', cwd = js ''/repo'', projectPath = None,
       prompt = js ''fix it'', mode = Agent, provider = Claude,
       assistantResponse = js ''done'', injectedBytes = Some 100, wasError = None \<rparr>"

definition snapshotOffEnv :: env where
  "snapshotOffEnv =
     activeEnv\<lparr>processEnv :=
       [''ONECODE_CONTINUITY_MODE'' \<mapsto> js ''active'',
        ''ONECODE_CONTINUITY_ENABLE_SNAPSHOT'' \<mapsto> js ''0'']\<rparr>"

definition quietEnv :: env where
  "quietEnv = activeEnv\<lparr>diffTotalLines := 0\<rparr>"

text \<open>
  The settings row that asks for automatic commits to the memory branch, in a database
  without any sub-chat and in one that has the sub-chat \<open>s1\<close> of the chat \<open>c1\<close>.
\<close>

definition memoryBranchSettings :: SettingsRow where
  "memoryBranchSettings =
     \<lparr> artifact_policy = js ''auto-write-memory-branch'',
       auto_commit_to_memory_branch = True,
       token_mode = js ''normal'',
       memory_branch = js ''memory/continuity'',
       set_updated_at = 0 \<rparr>"

definition memoryBranchWorld :: world where
  "memoryBranchWorld = emptyWorld\<lparr>db := emptyDb\<lparr>continuity_settings := Some memoryBranchSettings\<rparr>\<rparr>"

definition exampleSubChat :: SubChatRow where
  "exampleSubChat =
     \<lparr> sub_parent_chat_id = js ''c1'', sub_mode = js ''agent'', sub_session_id = None,
       sub_stream_id = None, sub_messages = Some [], sub_updated_at = 0 \<rparr>"

definition subChatDb :: database where
  "subChatDb = emptyDb\<lparr>sub_chats := [js ''s1'' \<mapsto> exampleSubChat], chats := [js ''c1'' \<mapsto> 0]\<rparr>"


definition memoryBranchChatWorld :: world where
  "memoryBranchChatWorld =
     emptyWorld\<lparr>db := subChatDb\<lparr>continuity_settings := Some memoryBranchSettings\<rparr>\<rparr>"

text \<open>
  A clock that is not on a whole second, a database that does not open, and two worlds
  in which the sub-chat \<open>s1\<close> already has a state row: three and six turns since the
  snapshot taken at second 900.
\<close>

definition halfSecondEnv :: env where
  "halfSecondEnv = activeEnv\<lparr>now := 1000500\<rparr>"

definition brokenDbEnv :: env where
  "brokenDbEnv = halfSecondEnv\<lparr>dbOk := False\<rparr>"

definition priorRow :: "int \<Rightarrow> StateRow" where
  "priorRow turns =
     \<lparr> last_changed_files_hash = js ''old'', turns_since_snapshot = turns,
       total_injected_bytes = 500, last_snapshot_at = Some 900, st_updated_at = 950 \<rparr>"

definition priorWorld :: "int \<Rightarrow> world" where
  "priorWorld turns =
     emptyWorld\<lparr>db := emptyDb\<lparr>continuity_state := [js ''s1'' \<mapsto> priorRow turns]\<rparr>\<rparr>"





text \<open>
  Two worlds agree on what decides a cache hit and the budget: the in-memory pack
  cache, the protocol state, the pack table and the settings row.
\<close>

definition samePackState :: "world \<Rightarrow> world \<Rightarrow> bool" where
  "samePackState w w' =
     (contextPackCache w' = contextPackCache w \<and> protocolState w' = protocolState w
      \<and> continuity_pack_cache (db w') = continuity_pack_cache (db w)
      \<and> continuity_settings (db w') = continuity_settings (db w))"

text \<open>The delta pack that a call of \<^verbatim>\<open>apply\<close> builds in the world \<open>w\<close>.\<close>

definition deltaPackAt :: "env \<Rightarrow> ContinuityInput \<Rightarrow> world \<Rightarrow> jsstring" where
  "deltaPackAt e input w =
     fst (buildDeltaPack e (subChatId input) (repoRootOf input) (readRepoState e)
            (prompt input) w)"

text \<open>A repository with one changed file, which exists and exports a constant.\<close>

definition fileEnv :: env where
  "fileEnv =
     activeEnv\<lparr>fileSystem := (\<lambda>root path.
       if path = js ''src/a.ts''
       then Some \<lparr> isFile = True, fileSize = 18, fileContent = Some (js ''export const x = 1'') \<rparr>
       else None)\<rparr>"

section \<open>Properties of clampByBytes\<close>

lemma not_high_and_low: "isLow d \<Longrightarrow> \<not> isHigh d"
  unfolding isHigh_def isLow_def word_le_nat_alt by simp

lemma clampLoop_stop:
  "\<not> (byteLength current > maxBytes \<and> length current > 0) \<Longrightarrow>
     clampLoop current maxBytes = current"
  by (subst clampLoop.simps) auto

lemma clampLoop_step:
  "byteLength current > maxBytes \<Longrightarrow> current \<noteq> [] \<Longrightarrow>
     clampLoop current maxBytes = clampLoop (shrink current) maxBytes"
  by (subst clampLoop.simps) auto

lemma clampLoop_prefix: "prefix (clampLoop s n) s"
proof (induction s n rule: clampLoop.induct)
  case (1 current maxBytes)
  show ?case
  proof (cases "byteLength current > maxBytes \<and> length current > 0")
    case True
    then have "prefix (clampLoop (shrink current) maxBytes) (shrink current)"
      using "1.IH" by simp
    moreover have "prefix (shrink current) current"
      by (simp add: shrink_def take_is_prefix)
    ultimately have "prefix (clampLoop (shrink current) maxBytes) current"
      by (rule prefix_order.trans)
    with True show ?thesis
      by (simp add: clampLoop_step)
  next
    case False
    from clampLoop_stop [OF False] show ?thesis by simp
  qed
qed

lemma clampLoop_bound: "0 \<le> n \<Longrightarrow> byteLength (clampLoop s n) \<le> n"
proof (induction s n rule: clampLoop.induct)
  case (1 current maxBytes)
  show ?case
  proof (cases "byteLength current > maxBytes \<and> length current > 0")
    case True
    with 1 show ?thesis by (simp add: clampLoop_step)
  next
    case False
    then have "byteLength current \<le> maxBytes"
      using "1.prems" by (cases current) (auto simp: byteLength_def)
    with clampLoop_stop [OF False] show ?thesis by simp
  qed
qed

text \<open>The loop is a bounded iteration of \<open>shrink\<close>: it stops after at most \<open>length s\<close> rounds.\<close>

lemma clampLoop_iterations:
  "\<exists>k. k \<le> length s \<and> clampLoop s n = (shrink ^^ k) s"
proof (induction s n rule: clampLoop.induct)
  case (1 current maxBytes)
  show ?case
  proof (cases "byteLength current > maxBytes \<and> length current > 0")
    case True
    then obtain k where k: "k \<le> length (shrink current)"
        "clampLoop (shrink current) maxBytes = (shrink ^^ k) (shrink current)"
      using "1.IH" by auto
    have "Suc k \<le> length current"
      using k(1) length_shrink [of current] True by auto
    moreover have "clampLoop current maxBytes = (shrink ^^ Suc k) current"
      using True k(2) by (simp add: clampLoop_step funpow_swap1)
    ultimately show ?thesis by blast
  next
    case False
    from clampLoop_stop [OF False] have "clampLoop current maxBytes = (shrink ^^ 0) current"
      by simp
    then show ?thesis by blast
  qed
qed

lemma wellFormed_take: "wellFormed s \<Longrightarrow> wellFormed (dropTrailingHigh (take k s))"
proof (induction s arbitrary: k rule: wellFormed.induct)
  case 1
  then show ?case by (simp add: dropTrailingHigh_def)
next
  case (2 c)
  then show ?case by (cases k) (simp_all add: dropTrailingHigh_def)
next
  case (3 c d ds)
  show ?case
  proof (cases k)
    case 0
    then show ?thesis by (simp add: dropTrailingHigh_def)
  next
    case (Suc k1)
    show ?thesis
    proof (cases k1)
      case 0
      with Suc 3 show ?thesis by (auto simp: dropTrailingHigh_def split: if_splits)
    next
      case k1: (Suc k2)
      show ?thesis
      proof (cases "isHigh c")
        case True
        with 3 have wf: "isLow d" "wellFormed (dropTrailingHigh (take k2 ds))" by auto
        have nl: "\<not> isHigh d" using wf(1) by (rule not_high_and_low)
        have "dropTrailingHigh (c # d # take k2 ds) = c # d # dropTrailingHigh (take k2 ds)"
          using nl by (auto simp: dropTrailingHigh_def)
        then show ?thesis using True wf Suc k1 by simp
      next
        case False
        with 3 have wf: "\<not> isLow c" "wellFormed (dropTrailingHigh (take k1 (d # ds)))" by auto
        have "dropTrailingHigh (c # take k1 (d # ds)) = c # dropTrailingHigh (take k1 (d # ds))"
          using False k1 by (auto simp: dropTrailingHigh_def)
        moreover have "wellFormed (c # r)" if "wellFormed r" for r
          using that False wf(1) by (cases r) auto
        ultimately show ?thesis using wf(2) Suc by simp
      qed
    qed
  qed
qed

lemma length_encUnit: "length (encUnit c) \<le> 3"
  by (simp add: encUnit_def enc1_def enc2_def enc3_def replacement_def)

lemma length_utf8: "length (utf8 s) \<le> 3 * length s"
proof (induction s rule: utf8.induct)
  case 1 then show ?case by simp
next
  case (2 c) then show ?case using length_encUnit [of c] by simp
next
  case (3 c d ds)
  then show ?case using length_encUnit [of c] by (auto simp: enc4_def)
qed

lemma clampLoop_nonempty: "s \<noteq> [] \<Longrightarrow> 3 \<le> n \<Longrightarrow> clampLoop s n \<noteq> []"
proof (induction s n rule: clampLoop.induct)
  case (1 current maxBytes)
  show ?case
  proof (cases "byteLength current > maxBytes \<and> length current > 0")
    case True
    then have "3 < byteLength current" using "1.prems" by simp
    then have "2 \<le> length current"
      using length_utf8 [of current] by (simp add: byteLength_def)
    then have "shrink current \<noteq> []"
      by (cases current) (auto simp: shrink_def floor85_def)
    with 1 True show ?thesis by (simp add: clampLoop_step)
  next
    case False
    from clampLoop_stop [OF False] show ?thesis using "1.prems" by simp
  qed
qed

lemma clampByBytes_nonempty: "s \<noteq> [] \<Longrightarrow> 3 \<le> n \<Longrightarrow> clampByBytes s n \<noteq> []"
  by (simp add: clampByBytes_def clampLoop_nonempty)

lemmas clamp_eval =
  clampByBytes_def clampLoop.simps shrink_def floor85_def byteLength_def isHigh_def isLow_def
  enc4_def replacement_def encUnit_def dropTrailingHigh_def

text \<open>
  C3 fails as stated: the string of two U+1F600 (four code units, eight bytes) is
  well-formed, and under the limit 7 the loop keeps three code units, the last of them
  a high surrogate without its partner.
\<close>

theorem clampByBytes_surrogate_counterexample:
  "wellFormed [0xD83D, 0xDE00, 0xD83D, 0xDE00]
   \<and> \<not> byteLength [0xD83D, 0xDE00, 0xD83D, 0xDE00] \<le> 7
   \<and> clampByBytes [0xD83D, 0xDE00, 0xD83D, 0xDE00] 7 = [0xD83D, 0xDE00, 0xD83D]
   \<and> \<not> wellFormed (clampByBytes [0xD83D, 0xDE00, 0xD83D, 0xDE00] 7)"
  by (simp add: clamp_eval)

text \<open>
  C3 (amended): if the UTF-8 byte length of \<open>s\<close> is at most \<open>n\<close>, \<open>clampByBytes s n\<close> is
  \<open>s\<close>; otherwise, for a limit \<open>n \<ge> 0\<close>, it is a prefix of \<open>s\<close> in code units whose UTF-8
  byte length is at most \<open>n\<close>. The cut can fall inside a surrogate pair: when \<open>s\<close> is
  well-formed the result is well-formed except, possibly, for a high surrogate as its
  last code unit.
\<close>

theorem clampByBytes_bytes:
  "(byteLength s \<le> n \<longrightarrow> clampByBytes s n = s)
   \<and> (0 \<le> n \<longrightarrow> byteLength (clampByBytes s n) \<le> n)
   \<and> prefix (clampByBytes s n) s
   \<and> (wellFormed s \<longrightarrow> wellFormed (dropTrailingHigh (clampByBytes s n)))"
proof -
  have p: "prefix (clampByBytes s n) s"
    by (simp add: clampByBytes_def clampLoop_prefix)
  then obtain k where "clampByBytes s n = take k s"
    by (metis prefix_def append_eq_conv_conj)
  then have "wellFormed s \<longrightarrow> wellFormed (dropTrailingHigh (clampByBytes s n))"
    by (simp add: wellFormed_take)
  moreover have "0 \<le> n \<longrightarrow> byteLength (clampByBytes s n) \<le> n"
    by (simp add: clampByBytes_def clampLoop_bound)
  ultimately show ?thesis using p by (simp add: clampByBytes_def)
qed

theorem clampByBytes_bytes_witness:
  "byteLength [0xD83D, 0xDE00, 0xD83D, 0xDE00] \<le> 8
   \<and> clampByBytes [0xD83D, 0xDE00, 0xD83D, 0xDE00] 8 = [0xD83D, 0xDE00, 0xD83D, 0xDE00]
   \<and> (0::int) \<le> 7
   \<and> wellFormed [0xD83D, 0xDE00, 0xD83D, 0xDE00]
   \<and> byteLength (clampByBytes [0xD83D, 0xDE00, 0xD83D, 0xDE00] 7) \<le> 7
   \<and> wellFormed (dropTrailingHigh (clampByBytes [0xD83D, 0xDE00, 0xD83D, 0xDE00] 7))"
proof -
  have b: "byteLength [0xD83D, 0xDE00, 0xD83D, 0xDE00] \<le> 8"
    by (simp add: clamp_eval)
  have w: "wellFormed [0xD83D, 0xDE00, 0xD83D, 0xDE00]"
    by (simp add: clamp_eval)
  show ?thesis
    using b w clampByBytes_bytes [of "[0xD83D, 0xDE00, 0xD83D, 0xDE00]" 8]
      clampByBytes_bytes [of "[0xD83D, 0xDE00, 0xD83D, 0xDE00]" 7]
    by simp
qed

text \<open>
  C10: \<open>clampByBytes\<close> is total and its result is a prefix of the argument. The loop is
  defined by recursion on the length of the string (the termination proof above); it
  reaches its result after at most \<open>length s\<close> rounds of \<open>shrink\<close>, every round strictly
  shortens a non-empty string because \<open>floor85 k < k\<close> for \<open>k \<ge> 1\<close>, and on the empty
  string the loop stops at once.
\<close>

theorem clampByBytes_total_prefix:
  "prefix (clampByBytes s n) s
   \<and> (\<exists>k. k \<le> length s \<and> clampByBytes s n = (shrink ^^ k) s)
   \<and> (1 \<le> k' \<longrightarrow> floor85 k' < k')
   \<and> (current \<noteq> [] \<longrightarrow> length (shrink current) < length current)
   \<and> clampLoop [] n = []"
proof -
  have "\<exists>k. k \<le> length s \<and> clampByBytes s n = (shrink ^^ k) s"
  proof (cases "byteLength s \<le> n")
    case True
    then have "clampByBytes s n = (shrink ^^ 0) s" by (simp add: clampByBytes_def)
    then show ?thesis by blast
  next
    case False
    then show ?thesis using clampLoop_iterations [of s n] by (simp add: clampByBytes_def)
  qed
  moreover have "clampLoop [] n = []"
    by (rule clampLoop_stop) simp
  ultimately show ?thesis
    by (simp add: clampByBytes_def clampLoop_prefix floor85_less length_shrink)
qed

theorem clampByBytes_total_prefix_witness:
  "(1::nat) \<le> 4 \<and> floor85 4 < 4
   \<and> [0x61, 0x62, 0x63, 0x64] \<noteq> ([] :: jsstring)
   \<and> length (shrink [0x61, 0x62, 0x63, 0x64]) < length [0x61 :: 16 word, 0x62, 0x63, 0x64]
   \<and> prefix (clampByBytes [0x61, 0x62, 0x63, 0x64] 2) [0x61, 0x62, 0x63, 0x64]
   \<and> clampLoop [] 2 = []"
  using clampByBytes_total_prefix [of "[0x61, 0x62, 0x63, 0x64]" 2 4 "[0x61, 0x62, 0x63, 0x64]"]
  by simp

section \<open>Properties of the governor\<close>

lemma length_pushIf: "length (pushIf c x xs) = length xs + (if c then 1 else 0)"
  by (simp add: pushIf_def)

lemma length_snapshotReasons:
  "length (snapshotReasons i) =
     (if turnsSinceSnapshot i \<ge> SNAPSHOT_TURN_THRESHOLD then 1 else 0)
   + (if totalInjectedBytes i \<ge> SNAPSHOT_BYTES_THRESHOLD then 1 else 0)
   + (if changedFilesCount i \<ge> SNAPSHOT_FILES_THRESHOLD then 1 else 0)
   + (if diffLines i \<ge> SNAPSHOT_DIFF_THRESHOLD then 1 else 0)
   + (if elapsedSinceSnapshotMs i \<ge> SNAPSHOT_ELAPSED_MS then 1 else (0::nat))"
  unfolding snapshotReasons_def Let_def length_pushIf by simp

lemma length_severeReasons:
  "length (severeReasons i) =
     (if turnsSinceSnapshot i \<ge> REHYDRATE_TURN_THRESHOLD then 1 else 0)
   + (if totalInjectedBytes i \<ge> REHYDRATE_BYTES_THRESHOLD then 1 else 0)
   + (if changedFilesCount i \<ge> REHYDRATE_FILES_THRESHOLD then 1 else 0)
   + (if diffLines i \<ge> REHYDRATE_DIFF_THRESHOLD then 1 else 0)
   + (if elapsedSinceSnapshotMs i \<ge> REHYDRATE_ELAPSED_MS then 1 else (0::nat))"
  unfolding severeReasons_def Let_def length_pushIf by simp

lemma fired_mono:
  "(a::int) \<le> b \<Longrightarrow> (if a \<ge> t then 1 else (0::nat)) \<le> (if b \<ge> t then 1 else 0)"
  by simp

lemma snapshotReasons_mono:
  assumes "turnsSinceSnapshot a \<le> turnsSinceSnapshot b"
    and "totalInjectedBytes a \<le> totalInjectedBytes b"
    and "changedFilesCount a \<le> changedFilesCount b"
    and "diffLines a \<le> diffLines b"
    and "elapsedSinceSnapshotMs a \<le> elapsedSinceSnapshotMs b"
  shows "length (snapshotReasons a) \<le> length (snapshotReasons b)"
  unfolding length_snapshotReasons
  by (intro add_mono fired_mono assms)

lemma severeReasons_mono:
  assumes "turnsSinceSnapshot a \<le> turnsSinceSnapshot b"
    and "totalInjectedBytes a \<le> totalInjectedBytes b"
    and "changedFilesCount a \<le> changedFilesCount b"
    and "diffLines a \<le> diffLines b"
    and "elapsedSinceSnapshotMs a \<le> elapsedSinceSnapshotMs b"
  shows "length (severeReasons a) \<le> length (severeReasons b)"
  unfolding length_severeReasons
  by (intro add_mono fired_mono assms)

lemma rank_decideGovernor:
  "actionRank (action (decideGovernor i)) =
     (if length (severeReasons i) \<ge> 2 then 2
      else if length (snapshotReasons i) \<ge> 2 then 1 else 0)"
  by (simp add: decideGovernor_def)

lemma decideGovernor_pointwise:
  assumes "turnsSinceSnapshot a \<le> turnsSinceSnapshot b"
    and "totalInjectedBytes a \<le> totalInjectedBytes b"
    and "changedFilesCount a \<le> changedFilesCount b"
    and "diffLines a \<le> diffLines b"
    and "elapsedSinceSnapshotMs a \<le> elapsedSinceSnapshotMs b"
  shows "actionRank (action (decideGovernor a)) \<le> actionRank (action (decideGovernor b))"
  using snapshotReasons_mono [OF assms] severeReasons_mono [OF assms]
  unfolding rank_decideGovernor by simp

text \<open>
  C4: raising one of the five governor signals while the other four stay as they are
  never demotes the decided action in the order ok, snapshot, rehydrate.
\<close>

theorem decideGovernor_monotone:
  "raisesOneSignal a b \<Longrightarrow>
     actionRank (action (decideGovernor a)) \<le> actionRank (action (decideGovernor b))"
  unfolding raisesOneSignal_def
  by (elim disjE conjE; rule decideGovernor_pointwise; simp)

lemmas governor_eval =
  decideGovernor_def length_snapshotReasons length_severeReasons
  SNAPSHOT_TURN_THRESHOLD_def SNAPSHOT_BYTES_THRESHOLD_def SNAPSHOT_FILES_THRESHOLD_def
  SNAPSHOT_DIFF_THRESHOLD_def SNAPSHOT_ELAPSED_MS_def REHYDRATE_TURN_THRESHOLD_def
  REHYDRATE_BYTES_THRESHOLD_def REHYDRATE_FILES_THRESHOLD_def REHYDRATE_DIFF_THRESHOLD_def
  REHYDRATE_ELAPSED_MS_def

theorem decideGovernor_monotone_witness:
  "raisesOneSignal
     \<lparr> turnsSinceSnapshot = 6, totalInjectedBytes = 0, changedFilesCount = 10,
       diffLines = 0, elapsedSinceSnapshotMs = 0 \<rparr>
     \<lparr> turnsSinceSnapshot = 7, totalInjectedBytes = 0, changedFilesCount = 10,
       diffLines = 0, elapsedSinceSnapshotMs = 0 \<rparr>
   \<and> action (decideGovernor
        \<lparr> turnsSinceSnapshot = 6, totalInjectedBytes = 0, changedFilesCount = 10,
          diffLines = 0, elapsedSinceSnapshotMs = 0 \<rparr>) = Ok
   \<and> action (decideGovernor
        \<lparr> turnsSinceSnapshot = 7, totalInjectedBytes = 0, changedFilesCount = 10,
          diffLines = 0, elapsedSinceSnapshotMs = 0 \<rparr>) = Snapshot
   \<and> actionRank (action (decideGovernor
        \<lparr> turnsSinceSnapshot = 6, totalInjectedBytes = 0, changedFilesCount = 10,
          diffLines = 0, elapsedSinceSnapshotMs = 0 \<rparr>))
      \<le> actionRank (action (decideGovernor
        \<lparr> turnsSinceSnapshot = 7, totalInjectedBytes = 0, changedFilesCount = 10,
          diffLines = 0, elapsedSinceSnapshotMs = 0 \<rparr>))"
proof -
  have r: "raisesOneSignal
     \<lparr> turnsSinceSnapshot = 6, totalInjectedBytes = 0, changedFilesCount = 10,
       diffLines = 0, elapsedSinceSnapshotMs = 0 \<rparr>
     \<lparr> turnsSinceSnapshot = 7, totalInjectedBytes = 0, changedFilesCount = 10,
       diffLines = 0, elapsedSinceSnapshotMs = 0 \<rparr>"
    by (simp add: raisesOneSignal_def)
  show ?thesis
    using r decideGovernor_monotone [OF r] by (simp add: governor_eval)
qed

section \<open>Properties of recordRunOutcome\<close>

lemma stored_roundtrip [simp]: "map_option toStored (map_option fromStored t) = t"
  by (cases t) (simp_all add: toStored_def fromStored_def)

lemma writeArtifactIfNew_eq:
  "writeArtifactIfNew e sub ty fp c w =
     w\<lparr>db := (db w)\<lparr>continuity_artifact :=
         artifactsAfter e (sub_chats (db w)) sub ty fp c (continuity_artifact (db w))\<rparr>\<rparr>"
  by (simp add: writeArtifactIfNew_def artifactsAfter_def Let_def)

lemma writeArtifactIfNew_frame [simp]:
  "continuity_state (db (writeArtifactIfNew e sub ty fp c w)) = continuity_state (db w)"
  "sub_chats (db (writeArtifactIfNew e sub ty fp c w)) = sub_chats (db w)"
  "continuity_settings (db (writeArtifactIfNew e sub ty fp c w)) = continuity_settings (db w)"
  "gitCalls (writeArtifactIfNew e sub ty fp c w) = gitCalls w"
  by (simp_all add: writeArtifactIfNew_eq)

lemma executeRehydrate_frame [simp]:
  "continuity_state (db (executeRehydrate e sub p rs w)) = continuity_state (db w)"
  "continuity_artifact (db (executeRehydrate e sub p rs w)) = continuity_artifact (db w)"
  "gitCalls (executeRehydrate e sub p rs w) = gitCalls w"
  by (simp_all add: executeRehydrate_def Let_def split: option.splits)

lemma track_frame [simp]:
  "db (track ev w) = db w" "gitCalls (track ev w) = gitCalls w"
  by (simp_all add: track_def)

lemma logGit_frame [simp]:
  "db (logGit a w) = db w" "gitCalls (logGit a w) = gitCalls w @ [a]"
  by (simp_all add: logGit_def)

lemma whenW_write_frame [simp]:
  "sub_chats (db (whenW b (writeArtifactIfNew e sub ty fp c) w)) = sub_chats (db w)"
  by (simp add: whenW_def)

lemma whenW_frame:
  "continuity_state (db (whenW c f w)) = (if c then continuity_state (db (f w)) else continuity_state (db w))"
  "continuity_artifact (db (whenW c f w)) = (if c then continuity_artifact (db (f w)) else continuity_artifact (db w))"
  "gitCalls (whenW c f w) = (if c then gitCalls (f w) else gitCalls w)"
  "sub_chats (db (whenW c f w)) = (if c then sub_chats (db (f w)) else sub_chats (db w))"
  by (simp_all add: whenW_def)

lemma getPersistedState_logGit [simp]:
  "getPersistedState e sub (logGit a w) = getPersistedState e sub w"
  by (simp add: getPersistedState_def)

lemma getSafeguardSettings_logGit [simp]:
  "fst (getSafeguardSettings e (logGit a w)) = fst (getSafeguardSettings e w)"
  by (simp add: getSafeguardSettings_def Let_def split: option.splits)

lemma getSafeguardSettings_frame [simp]:
  "continuity_state (db (snd (getSafeguardSettings e w))) = continuity_state (db w)"
  "sub_chats (db (snd (getSafeguardSettings e w))) = sub_chats (db w)"
  "continuity_artifact (db (snd (getSafeguardSettings e w))) = continuity_artifact (db w)"
  "gitCalls (snd (getSafeguardSettings e w)) = gitCalls w"
  by (simp_all add: getSafeguardSettings_def Let_def split: option.splits)

lemma assess_frame [simp]:
  "db (snd (assessAutoCommitPolicy e r s w)) = db w"
  "gitCalls (snd (assessAutoCommitPolicy e r s w)) = gitCalls w @ [[js ''rev-parse'', js ''--abbrev-ref'', js ''HEAD'']]"
  by (simp_all add: assessAutoCommitPolicy_def Let_def)


lemma persist_frame [simp]:
  "continuity_state (db (persistGovernorState e sub h st w)) =
     (if dbOk e then (continuity_state (db w))(sub \<mapsto>
                \<lparr> last_changed_files_hash = h,
                  turns_since_snapshot = turnsSinceSnapshot st,
                  total_injected_bytes = totalInjectedBytes st,
                  last_snapshot_at = map_option toStored (lastSnapshotAt st),
                  st_updated_at = toStored (now e) \<rparr>) else continuity_state (db w))"
  "continuity_artifact (db (persistGovernorState e sub h st w)) = continuity_artifact (db w)"
  "sub_chats (db (persistGovernorState e sub h st w)) = sub_chats (db w)"
  "gitCalls (persistGovernorState e sub h st w) = gitCalls w"
  by (simp_all add: persistGovernorState_def Let_def)

lemmas run_unfold =
  recordRunOutcome_def Let_def split_def getRepoState_def getDiffStats_def decisionOf_def

lemma recordRunOutcome_result:
  "fst (recordRunOutcome e input w) =
     (if getContinuityMode (processEnv e) = ModeOff then \<lparr> action = Ok, reasons = [] \<rparr>
      else \<lparr> action = effectiveGovernorAction (getContinuityGovernorCapabilities (processEnv e))
                        (decisionOf e input w),
             reasons = reasons (decisionOf e input w) \<rparr>)"
  by (simp add: run_unfold)

text \<open>
  C5: when the rehydrate capability is disabled, no call of \<open>recordRunOutcome\<close> returns
  the action rehydrate. With the mode not off, a rehydrate decision of the governor is
  returned as snapshot when the snapshot capability is enabled and as ok otherwise, a
  snapshot decision is returned as ok when the snapshot capability is disabled, and an
  ok decision stays ok.
\<close>

theorem recordRunOutcome_capability_gate:
  "\<not> rehydrateEnabled (getContinuityGovernorCapabilities (processEnv e)) \<Longrightarrow>
     action (fst (recordRunOutcome e input w)) \<noteq> Rehydrate
     \<and> (getContinuityMode (processEnv e) \<noteq> ModeOff \<longrightarrow>
          action (fst (recordRunOutcome e input w)) =
            (if snapshotEnabled (getContinuityGovernorCapabilities (processEnv e))
             then (if action (decisionOf e input w) = Ok then Ok else Snapshot)
             else Ok))"
  unfolding recordRunOutcome_result
  by (cases "action (decisionOf e input w)") (simp_all add: effectiveGovernorAction_def)

lemma getPersistedState_prior:
  "dbOk e \<Longrightarrow>
     getPersistedState e sub w =
       \<lparr> turnsSinceSnapshot = priorTurns sub w, totalInjectedBytes = priorBytes sub w,
         lastSnapshotAt = map_option fromStored (priorSnapshotAt sub w) \<rparr>"
  by (simp add: getPersistedState_def priorTurns_def priorBytes_def priorSnapshotAt_def
           split: option.splits)

lemma recordRunOutcome_state:
  "getContinuityMode (processEnv e) \<noteq> ModeOff \<Longrightarrow>
   continuity_state (db (snd (recordRunOutcome e input w))) =
     (if dbOk e
      then (continuity_state (db w))(subChatId input \<mapsto>
             \<lparr> last_changed_files_hash = changedFilesHash (readRepoState e),
               turns_since_snapshot =
                 (if action (fst (recordRunOutcome e input w)) = Ok
                  then turnsSinceSnapshot (getPersistedState e (subChatId input) w) + 1 else 0),
               total_injected_bytes =
                 (if action (fst (recordRunOutcome e input w)) = Ok
                  then totalInjectedBytes (getPersistedState e (subChatId input) w)
                         + injectedOf input
                  else 0),
               last_snapshot_at =
                 map_option toStored
                   (if action (fst (recordRunOutcome e input w)) = Ok
                    then lastSnapshotAt (getPersistedState e (subChatId input) w)
                    else Some (now e)),
               st_updated_at = toStored (now e) \<rparr>)
      else continuity_state (db w))"
  unfolding recordRunOutcome_result
  by (simp add: run_unfold whenW_frame)

text \<open>
  C6 (amended): with the mode not off, \<open>recordRunOutcome\<close> changes the table
  \<open>continuity_state\<close> by the single upsert of \<open>persistGovernorState\<close>, and only when
  the database works; otherwise the table stays as it was. The row written for the
  sub-chat is determined by the row stored before the call (zero counters and no
  snapshot time for a sub-chat without a row): for the effective action ok it holds
  the stored counters incremented and the stored \<open>last_snapshot_at\<close>, for snapshot or
  rehydrate both counters are zero and \<open>last_snapshot_at\<close> is the time of the call in
  whole seconds; in every case \<open>last_changed_files_hash\<close> is the hash of the current
  repository state. The rows of the other sub-chats are untouched.
\<close>

theorem recordRunOutcome_persists:
  "getContinuityMode (processEnv e) \<noteq> ModeOff \<Longrightarrow>
   continuity_state (db (snd (recordRunOutcome e input w))) =
     (if dbOk e
      then (continuity_state (db w))(subChatId input \<mapsto>
             \<lparr> last_changed_files_hash = changedFilesHash (readRepoState e),
               turns_since_snapshot =
                 (if action (fst (recordRunOutcome e input w)) = Ok
                  then priorTurns (subChatId input) w + 1 else 0),
               total_injected_bytes =
                 (if action (fst (recordRunOutcome e input w)) = Ok
                  then priorBytes (subChatId input) w + injectedOf input else 0),
               last_snapshot_at =
                 (if action (fst (recordRunOutcome e input w)) = Ok
                  then priorSnapshotAt (subChatId input) w else Some (now e div 1000)),
               st_updated_at = now e div 1000 \<rparr>)
      else continuity_state (db w))"
proof (cases "dbOk e")
  case True
  assume "getContinuityMode (processEnv e) \<noteq> ModeOff"
  from recordRunOutcome_state [OF this, of input w] True show ?thesis
    by (simp add: getPersistedState_prior toStored_def)
next
  case False
  assume "getContinuityMode (processEnv e) \<noteq> ModeOff"
  from recordRunOutcome_state [OF this, of input w] False show ?thesis by simp
qed


lemma recordRunOutcome_off:
  "getContinuityMode (processEnv e) = ModeOff \<Longrightarrow> snd (recordRunOutcome e input w) = w"
  by (simp add: recordRunOutcome_def)









lemmas env_eval =
  activeEnv_def snapshotOffEnv_def quietEnv_def emptyWorld_def emptyDb_def exampleRun_def
  memoryBranchWorld_def memoryBranchChatWorld_def memoryBranchSettings_def subChatDb_def
  halfSecondEnv_def brokenDbEnv_def priorWorld_def priorRow_def
  getContinuityMode_def getContinuityGovernorCapabilities_def Let_def

lemmas decision_eval =
  decisionOf_def governorInputOf_def getPersistedState_def readRepoState_def injectedOf_def
  uniqueInOrder_def governor_eval fromStored_def

theorem recordRunOutcome_capability_gate_witness:
  "\<not> rehydrateEnabled (getContinuityGovernorCapabilities (processEnv activeEnv))
   \<and> getContinuityMode (processEnv activeEnv) \<noteq> ModeOff
   \<and> action (decisionOf activeEnv exampleRun emptyWorld) = Rehydrate
   \<and> action (fst (recordRunOutcome activeEnv exampleRun emptyWorld)) = Snapshot
   \<and> \<not> rehydrateEnabled (getContinuityGovernorCapabilities (processEnv snapshotOffEnv))
   \<and> getContinuityMode (processEnv snapshotOffEnv) \<noteq> ModeOff
   \<and> action (fst (recordRunOutcome snapshotOffEnv exampleRun emptyWorld)) = Ok"
proof -
  have a: "\<not> rehydrateEnabled (getContinuityGovernorCapabilities (processEnv activeEnv))"
    by (simp add: env_eval)
  have b: "\<not> rehydrateEnabled (getContinuityGovernorCapabilities (processEnv snapshotOffEnv))"
    by (simp add: env_eval)
  have d: "action (decisionOf activeEnv exampleRun emptyWorld) = Rehydrate"
    by (simp add: env_eval decision_eval)
  show ?thesis
    using a b d recordRunOutcome_capability_gate [OF a, of exampleRun emptyWorld]
      recordRunOutcome_capability_gate [OF b, of exampleRun emptyWorld]
    by (simp add: env_eval)
qed

lemma example_modes:
  "getContinuityMode (processEnv halfSecondEnv) \<noteq> ModeOff"
  "getContinuityMode (processEnv brokenDbEnv) \<noteq> ModeOff"
  "dbOk halfSecondEnv" "\<not> dbOk brokenDbEnv"
  "now halfSecondEnv = 1000500" "now brokenDbEnv = 1000500"
  by (simp_all add: env_eval)

lemma example_actions:
  "action (fst (recordRunOutcome halfSecondEnv exampleRun (priorWorld 3))) = Ok"
  "action (fst (recordRunOutcome halfSecondEnv exampleRun (priorWorld 6))) = Snapshot"
  "action (fst (recordRunOutcome brokenDbEnv exampleRun (priorWorld 6))) = Snapshot"
  by (simp_all add: recordRunOutcome_result effectiveGovernorAction_def env_eval decision_eval)

lemma example_prior:
  "continuity_state (db (priorWorld n)) = [js ''s1'' \<mapsto> priorRow n]"
  "subChatId exampleRun = js ''s1''"
  "injectedOf exampleRun = 100"
  by (simp_all add: priorWorld_def emptyWorld_def emptyDb_def exampleRun_def injectedOf_def)

text \<open>
  C6 fails as stated in two ways. The sub-chat \<open>s1\<close> has six turns since its snapshot
  and the run brings the seventh, with 300 changed lines: the effective action is
  snapshot. At the time 1000500 ms the row gets \<open>last_snapshot_at = 1000\<close> seconds, and the
  next call reads it back as 1000000 ms, not as the time of the call. When the
  database does not open, the action is snapshot as well, and the row keeps its six turns,
  its 500 bytes and its old hash.
\<close>

theorem recordRunOutcome_persists_counterexample:
  "getContinuityMode (processEnv halfSecondEnv) \<noteq> ModeOff
   \<and> action (fst (recordRunOutcome halfSecondEnv exampleRun (priorWorld 6))) = Snapshot
   \<and> now halfSecondEnv = 1000500
   \<and> continuity_state (db (snd (recordRunOutcome halfSecondEnv exampleRun (priorWorld 6))))
         (js ''s1'') =
       Some \<lparr> last_changed_files_hash = changedFilesHash (readRepoState halfSecondEnv),
              turns_since_snapshot = 0, total_injected_bytes = 0,
              last_snapshot_at = Some 1000, st_updated_at = 1000 \<rparr>
   \<and> lastSnapshotAt (getPersistedState halfSecondEnv (js ''s1'')
                        (snd (recordRunOutcome halfSecondEnv exampleRun (priorWorld 6))))
       = Some 1000000
   \<and> getContinuityMode (processEnv brokenDbEnv) \<noteq> ModeOff
   \<and> action (fst (recordRunOutcome brokenDbEnv exampleRun (priorWorld 6))) = Snapshot
   \<and> continuity_state (db (snd (recordRunOutcome brokenDbEnv exampleRun (priorWorld 6))))
         (js ''s1'') =
       Some \<lparr> last_changed_files_hash = js ''old'', turns_since_snapshot = 6,
              total_injected_bytes = 500, last_snapshot_at = Some 900, st_updated_at = 950 \<rparr>"
  using recordRunOutcome_state [OF example_modes(1), of exampleRun "priorWorld 6"]
    recordRunOutcome_state [OF example_modes(2), of exampleRun "priorWorld 6"]
  by (simp add: example_modes example_actions example_prior getPersistedState_def
        toStored_def fromStored_def priorRow_def)

theorem recordRunOutcome_persists_witness:
  "getContinuityMode (processEnv halfSecondEnv) \<noteq> ModeOff \<and> dbOk halfSecondEnv
   \<and> continuity_state (db (priorWorld 3)) (js ''s1'') =
       Some \<lparr> last_changed_files_hash = js ''old'', turns_since_snapshot = 3,
              total_injected_bytes = 500, last_snapshot_at = Some 900, st_updated_at = 950 \<rparr>
   \<and> action (fst (recordRunOutcome halfSecondEnv exampleRun (priorWorld 3))) = Ok
   \<and> continuity_state (db (snd (recordRunOutcome halfSecondEnv exampleRun (priorWorld 3)))) =
       [js ''s1'' \<mapsto>
          \<lparr> last_changed_files_hash = changedFilesHash (readRepoState halfSecondEnv),
            turns_since_snapshot = 4, total_injected_bytes = 600,
            last_snapshot_at = Some 900, st_updated_at = 1000 \<rparr>]
   \<and> action (fst (recordRunOutcome halfSecondEnv exampleRun (priorWorld 6))) = Snapshot
   \<and> continuity_state (db (snd (recordRunOutcome halfSecondEnv exampleRun (priorWorld 6)))) =
       [js ''s1'' \<mapsto>
          \<lparr> last_changed_files_hash = changedFilesHash (readRepoState halfSecondEnv),
            turns_since_snapshot = 0, total_injected_bytes = 0,
            last_snapshot_at = Some 1000, st_updated_at = 1000 \<rparr>]
   \<and> getContinuityMode (processEnv brokenDbEnv) \<noteq> ModeOff \<and> \<not> dbOk brokenDbEnv
   \<and> continuity_state (db (snd (recordRunOutcome brokenDbEnv exampleRun (priorWorld 6)))) =
       continuity_state (db (priorWorld 6))"
  using recordRunOutcome_persists [OF example_modes(1), of exampleRun "priorWorld 3"]
    recordRunOutcome_persists [OF example_modes(1), of exampleRun "priorWorld 6"]
    recordRunOutcome_persists [OF example_modes(2), of exampleRun "priorWorld 6"]
  by (simp add: example_modes example_actions example_prior priorRow_def
        priorTurns_def priorBytes_def priorSnapshotAt_def)





section \<open>Properties of the artifact writer\<close>

lemma runWrites_sub_chats: "sub_chats (db (runWrites cs w)) = sub_chats (db w)"
  unfolding runWrites_def
  by (induction cs arbitrary: w) (simp_all add: runWrite_def)













section \<open>Properties of the context pack\<close>

lemma set_uniqueInOrder_aux:
  "set (fold (\<lambda>x acc. if x \<in> set acc then acc else acc @ [x]) xs acc) = set acc \<union> set xs"
  by (induction xs arbitrary: acc) auto

lemma set_uniqueInOrder: "set (uniqueInOrder xs) = set xs"
  by (simp add: uniqueInOrder_def set_uniqueInOrder_aux)

lemma uniqueInOrder_empty: "uniqueInOrder xs = [] \<longleftrightarrow> xs = []"
  using set_uniqueInOrder [of xs] by (metis set_empty)

lemma buildContextPack_no_keywords:
  "extractKeywords p = [] \<Longrightarrow>
     fst (buildContextPack e root rs p budget w) =
       (if take (maxContextFiles budget) (uniqueInOrder (take 4 (changedFiles rs))) = []
        then js ''No relevant files identified.''
        else joinWith (js ''\<newline>\<newline>---\<newline>\<newline>'')
               (fst (collectSummaries e root budget
                       (take (maxContextFiles budget) (uniqueInOrder (take 4 (changedFiles rs))))
                       [] 0 w)))"
  by (simp add: buildContextPack_def searchRelevantFiles_def Let_def split_def)

text \<open>
  C8 (amended): for a prompt without keywords the file search returns no hits, and the
  candidates of the context pack are the first four changed files. The builder returns
  "No relevant files identified." when the repository has no changed files; with changed
  files (and a budget of at least one context file) it returns the summaries of those
  candidates joined by the separator.
\<close>

theorem buildContextPack_without_keywords:
  "extractKeywords p = [] \<Longrightarrow>
     fst (searchRelevantFiles e root (extractKeywords p) (headCommit rs) w) = []
     \<and> (changedFiles rs = [] \<longrightarrow>
          fst (buildContextPack e root rs p budget w) = js ''No relevant files identified.'')
     \<and> (changedFiles rs \<noteq> [] \<and> 0 < maxContextFiles budget \<longrightarrow>
          fst (buildContextPack e root rs p budget w) =
            joinWith (js ''\<newline>\<newline>---\<newline>\<newline>'')
              (fst (collectSummaries e root budget
                      (take (maxContextFiles budget) (uniqueInOrder (take 4 (changedFiles rs))))
                      [] 0 w)))"
proof -
  assume k: "extractKeywords p = []"
  have "take (maxContextFiles budget) (uniqueInOrder (take 4 (changedFiles rs))) \<noteq> []"
    if "changedFiles rs \<noteq> []" "0 < maxContextFiles budget"
    using that by (simp add: uniqueInOrder_empty)
  then show ?thesis
    using k by (auto simp: buildContextPack_no_keywords searchRelevantFiles_def uniqueInOrder_def)
qed

lemma example_no_keywords: "extractKeywords (js ''fix it'') = []"
  by (simp add: extractKeywords_def js_def toLowerCase_def toLowerUnit_def isKeywordUnit_def
        trim_def isWhiteSpace_def uniqueInOrder_def)

lemma example_changed_files: "changedFiles (readRepoState fileEnv) = [js ''src/a.ts'']"
  by (simp add: readRepoState_def fileEnv_def activeEnv_def Let_def uniqueInOrder_def)

lemma summary_a:
  "buildFileSummary (js ''src/a.ts'') (js ''export const x = 1'') =
     js ''file: src/a.ts\<newline>lines: 1\<newline>first_line: export const x = 1\<newline>symbols: export const x = 1''"
  by (simp add: buildFileSummary_def Let_def splitLines_def newline_def js_def
        firstNonBlankLine_def trim_def isWhiteSpace_def exportLike_def keywordSpace_def
        keywordSpaceWord_def startsWith_def pushIf_def MAX_SUMMARY_LINES_def
        numberToString_def natToString.simps digitChar_def)


lemma readSummary_a:
  "fst (readSummary fileEnv root (js ''src/a.ts'') 180000 emptyWorld) =
     Some (buildFileSummary (js ''src/a.ts'') (js ''export const x = 1''))"
  by (simp add: readSummary_def fileEnv_def activeEnv_def emptyWorld_def emptyDb_def Let_def
        getPersistedSummary_def)

lemma summary_bytes:
  "byteLength (js ''file: src/a.ts\<newline>lines: 1\<newline>first_line: export const x = 1\<newline>symbols: export const x = 1'') = 82"
  by (simp add: byteLength_def js_def encUnit_def enc1_def isHigh_def isLow_def)

text \<open>
  C8 fails as stated: the prompt "fix it" has no keywords, the repository has the changed
  file \<open>src/a.ts\<close>, and the context pack is the summary of that file.
\<close>

theorem buildContextPack_changed_files_counterexample:
  "extractKeywords (js ''fix it'') = []
   \<and> changedFiles (readRepoState fileEnv) = [js ''src/a.ts'']
   \<and> fst (buildContextPack fileEnv (js ''/repo'') (readRepoState fileEnv) (js ''fix it'')
            (getContinuityBudgetProfile TokenNormal) emptyWorld)
       = js ''file: src/a.ts\<newline>lines: 1\<newline>first_line: export const x = 1\<newline>symbols: export const x = 1''
   \<and> fst (buildContextPack fileEnv (js ''/repo'') (readRepoState fileEnv) (js ''fix it'')
            (getContinuityBudgetProfile TokenNormal) emptyWorld)
       \<noteq> js ''No relevant files identified.''"
proof -
  have ne: "js ''file: src/a.ts\<newline>lines: 1\<newline>first_line: export const x = 1\<newline>symbols: export const x = 1''
            \<noteq> ([] :: jsstring)"
    by (simp add: js_def)
  have c: "fst (buildContextPack fileEnv (js ''/repo'') (readRepoState fileEnv) (js ''fix it'')
            (getContinuityBudgetProfile TokenNormal) emptyWorld)
       = js ''file: src/a.ts\<newline>lines: 1\<newline>first_line: export const x = 1\<newline>symbols: export const x = 1''"
    using ne
    by (simp add: buildContextPack_no_keywords [OF example_no_keywords] example_changed_files
          uniqueInOrder_def split_def
          readSummary_a summary_a summary_bytes)
  have "js ''file: src/a.ts\<newline>lines: 1\<newline>first_line: export const x = 1\<newline>symbols: export const x = 1''
          \<noteq> js ''No relevant files identified.''"
    by (simp add: js_def)
  with c example_no_keywords example_changed_files show ?thesis by simp
qed

theorem buildContextPack_without_keywords_witness:
  "extractKeywords (js ''fix it'') = []
   \<and> changedFiles noGitState = []
   \<and> fst (buildContextPack activeEnv (js ''/repo'') noGitState (js ''fix it'')
            (getContinuityBudgetProfile TokenNormal) emptyWorld)
       = js ''No relevant files identified.''
   \<and> changedFiles (readRepoState fileEnv) \<noteq> []
   \<and> 0 < maxContextFiles (getContinuityBudgetProfile TokenNormal)
   \<and> fst (buildContextPack fileEnv (js ''/repo'') (readRepoState fileEnv) (js ''fix it'')
            (getContinuityBudgetProfile TokenNormal) emptyWorld)
       = joinWith (js ''\<newline>\<newline>---\<newline>\<newline>'')
              (fst (collectSummaries fileEnv (js ''/repo'') (getContinuityBudgetProfile TokenNormal)
                      [js ''src/a.ts''] [] 0 emptyWorld))"
proof -
  have n: "changedFiles noGitState = []" by (simp add: noGitState_def)
  show ?thesis
    using example_no_keywords n example_changed_files
      buildContextPack_without_keywords [OF example_no_keywords, of activeEnv "js ''/repo''" noGitState emptyWorld
        "getContinuityBudgetProfile TokenNormal"]
      buildContextPack_without_keywords [OF example_no_keywords, of fileEnv "js ''/repo''" "readRepoState fileEnv"
        emptyWorld "getContinuityBudgetProfile TokenNormal"]
    by (simp add: uniqueInOrder_def)
qed

section \<open>Properties of apply\<close>

lemma samePackState_refl [simp]: "samePackState w w"
  by (simp add: samePackState_def)

lemma samePackState_trans: "samePackState a b \<Longrightarrow> samePackState b c \<Longrightarrow> samePackState a c"
  by (simp add: samePackState_def)

lemma readSummary_same: "samePackState w (snd (readSummary e root path m w))"
  by (simp add: samePackState_def readSummary_def storePersistedSummary_def Let_def
           split: option.splits)

lemma collectSummaries_same:
  "samePackState w (snd (collectSummaries e root budget fs acc tot w))"
proof (induction fs arbitrary: acc tot w)
  case Nil
  then show ?case by simp
next
  case (Cons f fs)
  have r: "samePackState w (snd (readSummary e root f (maxFileReadBytes budget) w))"
    by (rule readSummary_same)
  show ?case
  proof (cases "readSummary e root f (maxFileReadBytes budget) w")
    case (Pair res w')
    with r have s: "samePackState w w'" by simp
    show ?thesis
      using Pair s Cons.IH [where w = w']
      by (auto split: option.splits intro: samePackState_trans [OF s])
  qed
qed

lemma searchRelevantFiles_same:
  "samePackState w (snd (searchRelevantFiles e root kws head w))"
  by (simp add: samePackState_def searchRelevantFiles_def storePersistedSearch_def Let_def
           split: option.splits)

lemma buildContextPack_same:
  "samePackState w (snd (buildContextPack e root rs p budget w))"
  unfolding buildContextPack_def Let_def split_def
  using samePackState_trans [OF searchRelevantFiles_same collectSummaries_same]
    searchRelevantFiles_same
  by simp

lemma buildDeltaPack_same:
  "samePackState w (snd (buildDeltaPack e sub root rs p w))"
  by (simp add: samePackState_def buildDeltaPack_def getDiffSnippet_def getSubChatState_def
        logGit_def Let_def split_def split: option.splits)

lemma buildDeltaPack_fields [simp]:
  "contextPackCache (snd (buildDeltaPack e sub root rs p w)) = contextPackCache w"
  "protocolState (snd (buildDeltaPack e sub root rs p w)) = protocolState w"
  "continuity_pack_cache (db (snd (buildDeltaPack e sub root rs p w))) = continuity_pack_cache (db w)"
  "continuity_settings (db (snd (buildDeltaPack e sub root rs p w))) = continuity_settings (db w)"
  using buildDeltaPack_same [of w e sub root rs p] by (simp_all add: samePackState_def)

lemma buildContextPack_fields [simp]:
  "contextPackCache (snd (buildContextPack e root rs p budget w)) = contextPackCache w"
  "protocolState (snd (buildContextPack e root rs p budget w)) = protocolState w"
  "continuity_pack_cache (db (snd (buildContextPack e root rs p budget w))) = continuity_pack_cache (db w)"
  "continuity_settings (db (snd (buildContextPack e root rs p budget w))) = continuity_settings (db w)"
  using buildContextPack_same [of w e root rs p budget] by (simp_all add: samePackState_def)

lemma buildDeltaPack_logGit [simp]:
  "fst (buildDeltaPack e sub root rs p (logGit a w)) = fst (buildDeltaPack e sub root rs p w)"
  by (simp add: buildDeltaPack_def getDiffSnippet_def getSubChatState_def
        getLatestFailingTestDigest_def logGit_def Let_def split_def split: option.splits)

lemma getCachedPack_none:
  "contextPackCache w k = None \<Longrightarrow> continuity_pack_cache (db w) k = None \<Longrightarrow>
     getCachedPack e k w = (None, w)"
  by (simp add: getCachedPack_def)

lemma getCachedPack_hot:
  "contextPackCache w k = Some p \<Longrightarrow> p \<noteq> [] \<Longrightarrow> getCachedPack e k w = (Some p, w)"
  by (simp add: getCachedPack_def)

lemma getCachedPack_fields [simp]:
  "protocolState (snd (getCachedPack e k w)) = protocolState w"
  "continuity_pack_cache (db (snd (getCachedPack e k w))) = continuity_pack_cache (db w)"
  "continuity_settings (db (snd (getCachedPack e k w))) = continuity_settings (db w)"
  by (simp_all add: getCachedPack_def Let_def split: option.splits)

lemma logGit_fields [simp]:
  "contextPackCache (logGit a w) = contextPackCache w"
  "protocolState (logGit a w) = protocolState w"
  "db (logGit a w) = db w"
  by (simp_all add: logGit_def)

lemma track_fields [simp]:
  "contextPackCache (track ev w) = contextPackCache w"
  "protocolState (track ev w) = protocolState w"
  "db (track ev w) = db w"
  by (simp_all add: track_def)

lemma budgetOf_settings:
  "continuity_settings (db w') = continuity_settings (db w) \<Longrightarrow> budgetOf e w' = budgetOf e w"
  by (simp add: budgetOf_def getConfiguredTokenMode_def Let_def)

lemma joinWith_nonempty: "x \<noteq> [] \<Longrightarrow> joinWith sep (x # xs) \<noteq> []"
  by (cases xs) simp_all

lemma compositeEnvelope_nonempty:
  "compositeEnvelope input ids anchorPack contextPack deltaPack objectiveLine \<noteq> []"
  by (simp add: compositeEnvelope_def stateIdLines_def joinWith_nonempty js_def)

lemma maxPackBytes_ge: "3 \<le> maxPackBytes (getContinuityBudgetProfile m)"
  by (cases m) simp_all

lemma budgeted_nonempty:
  "clampByBytes (compositeEnvelope input ids a c d ob)
     (maxPackBytes (getContinuityBudgetProfile m)) \<noteq> []"
  by (rule clampByBytes_nonempty [OF compositeEnvelope_nonempty maxPackBytes_ge])

lemmas apply_unfold =
  applyContinuity_def Let_def split_def getRepoState_def applyKey_def budgetOf_def

lemma apply_miss:
  assumes "getContinuityMode (processEnv e) \<noteq> ModeOff"
    and "contextPackCache w (applyKey e input w) = None"
    and "continuity_pack_cache (db w) (applyKey e input w) = None"
  shows "\<not> cacheHit (fst (applyContinuity e input w))"
    and "reusedPercent (fst (applyContinuity e input w)) = 35"
    and "\<exists>b. b \<noteq> [] \<and> contextPackCache (snd (applyContinuity e input w))
                         (applyKey e input w) = Some b"
    and "protocolState (snd (applyContinuity e input w))
           = (protocolState w)(subChatId input \<mapsto> applyKey e input w)"
    and "continuity_settings (db (snd (applyContinuity e input w))) = continuity_settings (db w)"
    and "dom (continuity_pack_cache (db (snd (applyContinuity e input w))))
           = (if dbOk e then insert (applyKey e input w) (dom (continuity_pack_cache (db w)))
              else dom (continuity_pack_cache (db w)))"
  using assms
  by (simp_all add: apply_unfold getCachedPack_none storeCachedPack_def storeSubChatState_def
        budgeted_nonempty)

lemma apply_hit:
  assumes "getContinuityMode (processEnv e) \<noteq> ModeOff"
    and "contextPackCache w (applyKey e input w) = Some p" and "p \<noteq> []"
  shows "cacheHit (fst (applyContinuity e input w))"
    and "reusedPercent (fst (applyContinuity e input w))
           = (if protocolState w (subChatId input) = Some (applyKey e input w) then 95 else 75)"
    and "promptOut (fst (applyContinuity e input w))
           = (if getContinuityMode (processEnv e) = ModePassive then prompt input
              else if protocolState w (subChatId input) = Some (applyKey e input w)
              then withPrompt (deltaOnlyEnvelope (stateIds (fst (applyContinuity e input w)))
                                 (deltaPackAt e input w) (objectiveOf (prompt input))) input
              else withPrompt p input)"
    and "contextPackCache (snd (applyContinuity e input w)) = contextPackCache w"
    and "protocolState (snd (applyContinuity e input w))
           = (protocolState w)(subChatId input \<mapsto> applyKey e input w)"
    and "continuity_settings (db (snd (applyContinuity e input w))) = continuity_settings (db w)"
    and "continuity_pack_cache (db (snd (applyContinuity e input w)))
           = continuity_pack_cache (db w)"
  using assms
  by (simp_all add: apply_unfold getCachedPack_hot deltaPackAt_def)


lemma applyKey_same:
  assumes "readRepoState e' = readRepoState e" and "budgetOf e' w0 = budgetOf e w0"
    and "continuity_settings (db w') = continuity_settings (db w0)"
  shows "applyKey e' input w' = applyKey e input w0"
  using assms budgetOf_settings [OF assms(3), of e'] by (simp add: applyKey_def)

lemma mode_active:
  "getContinuityMode (processEnv e) \<noteq> ModeOff \<Longrightarrow>
   getContinuityMode (processEnv e) \<noteq> ModePassive \<Longrightarrow>
   getContinuityMode (processEnv e) = ModeActive"
  by (cases "getContinuityMode (processEnv e)") simp_all

text \<open>
  C1 (amended): three consecutive calls of \<open>apply\<close> with the same input, repository
  state and budget, the mode not off, starting from an empty pack cache (in memory and in
  the table) and an empty protocol state. The first call is a cache miss (reused 35); it
  stores the pack and records the cache key in the protocol state. The second call is
  therefore already a hit with reused 95 and, in active mode, returns the delta-only
  envelope; so does the third.
\<close>

theorem apply_three_times:
  assumes m1: "getContinuityMode (processEnv e1) \<noteq> ModeOff"
    and m2: "getContinuityMode (processEnv e2) \<noteq> ModeOff"
    and m3: "getContinuityMode (processEnv e3) \<noteq> ModeOff"
    and r2: "readRepoState e2 = readRepoState e1"
    and r3: "readRepoState e3 = readRepoState e1"
    and b2: "budgetOf e2 w0 = budgetOf e1 w0"
    and b3: "budgetOf e3 w0 = budgetOf e1 w0"
    and c0: "contextPackCache w0 = Map.empty"
    and t0: "continuity_pack_cache (db w0) = Map.empty"
    and p0: "protocolState w0 = Map.empty"
  shows "(let w1 = snd (applyContinuity e1 input w0);
              w2 = snd (applyContinuity e2 input w1);
              first = fst (applyContinuity e1 input w0);
              second = fst (applyContinuity e2 input w1);
              third = fst (applyContinuity e3 input w2)
          in \<not> cacheHit first \<and> reusedPercent first = 35
             \<and> cacheHit second \<and> reusedPercent second = 95
             \<and> (getContinuityMode (processEnv e2) = ModeActive \<longrightarrow>
                  promptOut second =
                    withPrompt (deltaOnlyEnvelope (stateIds second) (deltaPackAt e2 input w1)
                                  (objectiveOf (prompt input))) input)
             \<and> cacheHit third \<and> reusedPercent third = 95
             \<and> (getContinuityMode (processEnv e3) = ModeActive \<longrightarrow>
                  promptOut third =
                    withPrompt (deltaOnlyEnvelope (stateIds third) (deltaPackAt e3 input w2)
                                  (objectiveOf (prompt input))) input))"
proof -
  define k where "k = applyKey e1 input w0"
  define w1 where "w1 = snd (applyContinuity e1 input w0)"
  define w2 where "w2 = snd (applyContinuity e2 input w1)"
  have n0: "contextPackCache w0 (applyKey e1 input w0) = None"
    "continuity_pack_cache (db w0) (applyKey e1 input w0) = None"
    by (simp_all add: c0 t0)
  note first = apply_miss [OF m1 n0]
  from first(3) obtain p where p: "p \<noteq> []" "contextPackCache w1 k = Some p"
    by (auto simp: w1_def k_def)
  have s1: "continuity_settings (db w1) = continuity_settings (db w0)"
    using first(5) by (simp add: w1_def)
  have k1: "applyKey e2 input w1 = k"
    unfolding k_def by (rule applyKey_same [OF r2 b2 s1])
  have q1: "protocolState w1 (subChatId input) = Some k"
    using first(4) by (simp add: w1_def k_def)
  have h1: "contextPackCache w1 (applyKey e2 input w1) = Some p"
    using p(2) k1 by simp
  note second = apply_hit [OF m2 h1 p(1)]
  have s2: "continuity_settings (db w2) = continuity_settings (db w0)"
    using second(6) s1 by (simp add: w2_def)
  have k2: "applyKey e3 input w2 = k"
    unfolding k_def by (rule applyKey_same [OF r3 b3 s2])
  have q2: "protocolState w2 (subChatId input) = Some k"
    using second(5) k1 by (simp add: w2_def)
  have h2: "contextPackCache w2 (applyKey e3 input w2) = Some p"
    using second(4) p(2) k2 by (simp add: w2_def)
  note third = apply_hit [OF m3 h2 p(1)]
  show ?thesis
    unfolding Let_def
    using first(1,2) second(1,2,3) third(1,2,3) q1 q2 k1 k2
    by (simp add: w1_def [symmetric] w2_def [symmetric])
qed

lemma example_mode: "getContinuityMode (processEnv activeEnv) \<noteq> ModeOff"
  by (simp add: getContinuityMode_def activeEnv_def)

lemma example_empty:
  "contextPackCache emptyWorld = Map.empty"
  "continuity_pack_cache (db emptyWorld) = Map.empty"
  "protocolState emptyWorld = Map.empty"
  by (simp_all add: emptyWorld_def emptyDb_def)

text \<open>
  C1 fails as stated: after a miss from the empty state, the first repeat with the same
  input and environment is a hit with reused 95, not 75.
\<close>

theorem apply_first_repeat_counterexample:
  "contextPackCache emptyWorld = Map.empty
   \<and> continuity_pack_cache (db emptyWorld) = Map.empty
   \<and> protocolState emptyWorld = Map.empty
   \<and> \<not> cacheHit (fst (applyContinuity activeEnv exampleInput emptyWorld))
   \<and> cacheHit (fst (applyContinuity activeEnv exampleInput
                      (snd (applyContinuity activeEnv exampleInput emptyWorld))))
   \<and> reusedPercent (fst (applyContinuity activeEnv exampleInput
                      (snd (applyContinuity activeEnv exampleInput emptyWorld)))) = 95
   \<and> reusedPercent (fst (applyContinuity activeEnv exampleInput
                      (snd (applyContinuity activeEnv exampleInput emptyWorld)))) \<noteq> 75"
proof -
  define w1 where "w1 = snd (applyContinuity activeEnv exampleInput emptyWorld)"
  have n0: "contextPackCache emptyWorld (applyKey activeEnv exampleInput emptyWorld) = None"
    "continuity_pack_cache (db emptyWorld) (applyKey activeEnv exampleInput emptyWorld) = None"
    by (simp_all add: example_empty)
  note first = apply_miss [OF example_mode n0]
  from first(3) obtain p where p: "p \<noteq> []"
      "contextPackCache w1 (applyKey activeEnv exampleInput emptyWorld) = Some p"
    by (auto simp: w1_def)
  have s1: "continuity_settings (db w1) = continuity_settings (db emptyWorld)"
    using first(5) by (simp add: w1_def)
  have k1: "applyKey activeEnv exampleInput w1 = applyKey activeEnv exampleInput emptyWorld"
    by (rule applyKey_same [OF refl refl s1])
  have h1: "contextPackCache w1 (applyKey activeEnv exampleInput w1) = Some p"
    using p(2) k1 by simp
  note second = apply_hit [OF example_mode h1 p(1)]
  have "protocolState w1 (subChatId exampleInput) = Some (applyKey activeEnv exampleInput w1)"
    using first(4) k1 by (simp add: w1_def)
  with second(1,2) first(1) show ?thesis
    by (simp add: example_empty w1_def [symmetric])
qed

theorem apply_three_times_witness:
  "getContinuityMode (processEnv activeEnv) \<noteq> ModeOff
   \<and> getContinuityMode (processEnv activeEnv) = ModeActive
   \<and> contextPackCache emptyWorld = Map.empty
   \<and> continuity_pack_cache (db emptyWorld) = Map.empty
   \<and> protocolState emptyWorld = Map.empty
   \<and> (let w1 = snd (applyContinuity activeEnv exampleInput emptyWorld);
          w2 = snd (applyContinuity activeEnv exampleInput w1);
          first = fst (applyContinuity activeEnv exampleInput emptyWorld);
          second = fst (applyContinuity activeEnv exampleInput w1);
          third = fst (applyContinuity activeEnv exampleInput w2)
      in \<not> cacheHit first \<and> reusedPercent first = 35
         \<and> cacheHit second \<and> reusedPercent second = 95
         \<and> promptOut second =
             withPrompt (deltaOnlyEnvelope (stateIds second)
                           (deltaPackAt activeEnv exampleInput w1)
                           (objectiveOf (prompt exampleInput))) exampleInput
         \<and> cacheHit third \<and> reusedPercent third = 95
         \<and> promptOut third =
             withPrompt (deltaOnlyEnvelope (stateIds third)
                           (deltaPackAt activeEnv exampleInput w2)
                           (objectiveOf (prompt exampleInput))) exampleInput)"
proof -
  have a: "getContinuityMode (processEnv activeEnv) = ModeActive"
    by (simp add: getContinuityMode_def activeEnv_def)
  show ?thesis
    using a example_mode example_empty
      apply_three_times [OF example_mode example_mode example_mode refl refl refl refl
        example_empty, of exampleInput]
    by (simp add: Let_def)
qed

lemma hexDigits_length: "length hexDigits = 16"
  by (simp add: hexDigits_def js_def)

lemma colon_not_hex: "0x3A \<notin> set hexDigits"
  by (simp add: hexDigits_def js_def)

lemma hexByte_no_colon: "0x3A \<notin> set (hexByte b)"
proof -
  have "hexDigits ! n \<in> set hexDigits" if "n < 16" for n
    using that by (simp add: hexDigits_length)
  moreover have "unat b < 256"
    using unsigned_less [of b, where 'a = nat] by simp
  then have "unat b div 16 < 16"
    by (simp add: div_less_iff_less_mult)
  moreover have "unat b mod 16 < 16" by simp
  ultimately have "hexDigits ! (unat b div 16) \<in> set hexDigits"
      "hexDigits ! (unat b mod 16) \<in> set hexDigits" by blast+
  then show ?thesis
    using colon_not_hex by (auto simp: hexByte_def)
qed

lemma sha_no_colon: "0x3A \<notin> set (sha x)"
  by (auto simp: sha_def hexByte_no_colon)

lemma joinWith_colon: "0x3A \<in> set (joinWith (js '':'') (a # b # rest))"
  by (simp add: js_def)

lemma cacheKeyOf_colon: "0x3A \<in> set (cacheKeyOf input rs budget)"
  unfolding cacheKeyOf_def by (rule joinWith_colon)

lemma cacheKeyOf_not_sha: "cacheKeyOf input rs budget \<noteq> sha x"
  using cacheKeyOf_colon [of input rs budget] sha_no_colon [of x] by metis

lemma getCachedPack_logGit [simp]:
  "fst (getCachedPack e k (logGit a w)) = fst (getCachedPack e k w)"
  by (simp add: getCachedPack_def Let_def split: option.splits)

lemma apply_contextPackId:
  assumes "getContinuityMode (processEnv e) \<noteq> ModeOff"
  shows "contextPackId (stateIds (fst (applyContinuity e input w))) = sha (applyKey e input w)"
proof -
  obtain c w' where g: "getCachedPack e (cacheKeyOf input (readRepoState e)
                (getContinuityBudgetProfile (getConfiguredTokenMode e w)))
                  (logGit [js ''status''] (logGit [js ''rev-parse'', js ''HEAD''] w)) = (c, w')"
    by (cases "getCachedPack e (cacheKeyOf input (readRepoState e)
                (getContinuityBudgetProfile (getConfiguredTokenMode e w)))
                  (logGit [js ''status''] (logGit [js ''rev-parse'', js ''HEAD''] w))") 
  show ?thesis
  proof (cases c)
    case None
    with assms g show ?thesis by (simp add: apply_unfold del: getCachedPack_logGit)
  next
    case (Some p)
    with assms g show ?thesis by (simp add: apply_unfold del: getCachedPack_logGit)
  qed
qed


lemma apply_pack_keys:
  assumes "getContinuityMode (processEnv e) \<noteq> ModeOff"
  shows "dom (continuity_pack_cache (db (snd (applyContinuity e input w)))) =
       (if \<not> cacheHit (fst (applyContinuity e input w)) \<and> dbOk e
        then insert (applyKey e input w) (dom (continuity_pack_cache (db w)))
        else dom (continuity_pack_cache (db w)))"
proof -
  obtain c w' where g: "getCachedPack e (cacheKeyOf input (readRepoState e)
                (getContinuityBudgetProfile (getConfiguredTokenMode e w)))
                  (logGit [js ''status''] (logGit [js ''rev-parse'', js ''HEAD''] w)) = (c, w')"
    by (cases "getCachedPack e (cacheKeyOf input (readRepoState e)
                (getContinuityBudgetProfile (getConfiguredTokenMode e w)))
                  (logGit [js ''status''] (logGit [js ''rev-parse'', js ''HEAD''] w))") 
  have f: "continuity_pack_cache (db w') = continuity_pack_cache (db w)"
    using g getCachedPack_fields(2) [of e _ "logGit [js ''status''] (logGit [js ''rev-parse'', js ''HEAD''] w)"]
    by (metis logGit_fields(3) snd_conv)
  show ?thesis
  proof (cases c)
    case None
    with assms g f show ?thesis
      by (simp add: apply_unfold storeCachedPack_def storeSubChatState_def
            del: getCachedPack_logGit)
  next
    case (Some p)
    with assms g f show ?thesis by (simp add: apply_unfold del: getCachedPack_logGit)
  qed
qed

text \<open>
  C2 (amended): in every call of \<open>apply\<close> with the mode not off, the key of the pack
  cache is the colon-joined string of the six fields itself: the only key the call can
  add to the pack table is that string, and it adds it on a miss when the database
  works. The SHA-256 of the string is the \<open>contextPackId\<close> of the state ids; the string
  contains colons and is the digest of nothing.
\<close>

theorem apply_pack_cache_key:
  "getContinuityMode (processEnv e) \<noteq> ModeOff \<Longrightarrow>
     contextPackId (stateIds (fst (applyContinuity e input w))) = sha (applyKey e input w)
     \<and> dom (continuity_pack_cache (db (snd (applyContinuity e input w)))) =
         (if \<not> cacheHit (fst (applyContinuity e input w)) \<and> dbOk e
          then insert (applyKey e input w) (dom (continuity_pack_cache (db w)))
          else dom (continuity_pack_cache (db w)))
     \<and> (\<forall>x. applyKey e input w \<noteq> sha x)"
  using apply_contextPackId [of e input w] apply_pack_keys [of e input w]
  by (simp add: applyKey_def cacheKeyOf_not_sha)

lemma example_key:
  "applyKey activeEnv exampleInput emptyWorld =
     sha (js ''fix it'') @ js '':'' @ sha (js ''src/a.ts'') @ js '':abc123:claude:agent:24000''"
  by (simp add: applyKey_def budgetOf_def cacheKeyOf_def getConfiguredTokenMode_def
        getContinuityTokenMode_def readRepoState_def activeEnv_def exampleInput_def
        emptyWorld_def emptyDb_def Let_def uniqueInOrder_def normalizePrompt_def trim_def
        toLowerCase_def toLowerUnit_def isWhiteSpace_def numberToString_def natToString.simps
        digitChar_def js_def)


text \<open>
  C2 fails as stated: after a miss the pack table has exactly one key, the colon-joined
  string; its SHA-256 digest is not a key of the table.
\<close>

theorem apply_raw_key_counterexample:
  "getContinuityMode (processEnv activeEnv) \<noteq> ModeOff
   \<and> applyKey activeEnv exampleInput emptyWorld =
       sha (js ''fix it'') @ js '':'' @ sha (js ''src/a.ts'') @ js '':abc123:claude:agent:24000''
   \<and> dom (continuity_pack_cache (db (snd (applyContinuity activeEnv exampleInput emptyWorld))))
       = {applyKey activeEnv exampleInput emptyWorld}
   \<and> sha (applyKey activeEnv exampleInput emptyWorld)
       \<notin> dom (continuity_pack_cache (db (snd (applyContinuity activeEnv exampleInput emptyWorld))))"
proof -
  have n0: "contextPackCache emptyWorld (applyKey activeEnv exampleInput emptyWorld) = None"
    "continuity_pack_cache (db emptyWorld) (applyKey activeEnv exampleInput emptyWorld) = None"
    by (simp_all add: example_empty)
  have d: "dbOk activeEnv" by (simp add: activeEnv_def)
  have "dom (continuity_pack_cache (db (snd (applyContinuity activeEnv exampleInput emptyWorld))))
       = {applyKey activeEnv exampleInput emptyWorld}"
    using apply_miss(6) [OF example_mode n0] d by (simp add: example_empty)
  moreover have "sha (applyKey activeEnv exampleInput emptyWorld)
                   \<noteq> applyKey activeEnv exampleInput emptyWorld"
    using cacheKeyOf_not_sha by (metis applyKey_def)
  ultimately show ?thesis
    using example_mode example_key by simp
qed

theorem apply_pack_cache_key_witness:
  "getContinuityMode (processEnv activeEnv) \<noteq> ModeOff
   \<and> \<not> cacheHit (fst (applyContinuity activeEnv exampleInput emptyWorld))
   \<and> dbOk activeEnv
   \<and> contextPackId (stateIds (fst (applyContinuity activeEnv exampleInput emptyWorld)))
       = sha (applyKey activeEnv exampleInput emptyWorld)
   \<and> dom (continuity_pack_cache (db (snd (applyContinuity activeEnv exampleInput emptyWorld))))
       = {applyKey activeEnv exampleInput emptyWorld}"
proof -
  have n0: "contextPackCache emptyWorld (applyKey activeEnv exampleInput emptyWorld) = None"
    "continuity_pack_cache (db emptyWorld) (applyKey activeEnv exampleInput emptyWorld) = None"
    by (simp_all add: example_empty)
  have d: "dbOk activeEnv" by (simp add: activeEnv_def)
  show ?thesis
    using example_mode d apply_miss(1) [OF example_mode n0]
      apply_pack_cache_key [OF example_mode, of exampleInput emptyWorld]
    by (simp add: example_empty)
qed

end
